theory Spec2Isabelle
  imports Complex_Main
begin

section \<open>The Go library functions the CSV encoder calls\<close>

text \<open>
  \<^verbatim>\<open>plugins/s3/csv.go\<close> builds one row of text per metric from \<^verbatim>\<open>strings.Join\<close>,
  \<^verbatim>\<open>time.Time.Format\<close> and \<^verbatim>\<open>csv.Writer.Write\<close>. Go strings are byte sequences; they are
  modelled as \<^typ>\<open>string\<close>, one \<^typ>\<open>char\<close> per byte.
\<close>

subsection \<open>Bytes and \<^verbatim>\<open>strings\<close>\<close>

definition tab :: char where "tab = CHR 0x09"
definition newline :: char where "newline = CHR 0x0A"
definition cr :: char where "cr = CHR 0x0D"
definition dquote :: char where "dquote = CHR 0x22"
definition backslash :: char where "backslash = CHR 0x5C"

text \<open>\<^verbatim>\<open>strings.Join(elems, sep)\<close>.\<close>

fun Join :: "string list \<Rightarrow> string \<Rightarrow> string" where
  "Join [] sep = []"
| "Join [a] sep = a"
| "Join (a # b # bs) sep = a @ sep @ Join (b # bs) sep"

text \<open>\<^verbatim>\<open>strings.HasPrefix(s, p)\<close>.\<close>

definition HasPrefix :: "string \<Rightarrow> string \<Rightarrow> bool" where
  "HasPrefix s p = (take (length p) s = p)"

subsection \<open>\<^verbatim>\<open>encoding/csv\<close>: the writer\<close>

text \<open>
  A \<^verbatim>\<open>csv.Writer\<close> has the public fields \<^verbatim>\<open>Comma\<close> and \<^verbatim>\<open>UseCRLF\<close> and a buffered
  output stream. The stream is modelled by the bytes it has accepted, \<open>out\<close>. A
  \<open>Writer\<close> is a writer over a stream that accepts every write (in \<^verbatim>\<open>TestEncodeCSV\<close> it
  is a \<^verbatim>\<open>bytes.Buffer\<close>), so that its sticky I/O error stays \<^verbatim>\<open>nil\<close>; a writer over a
  stream that may have failed is the \<open>Writer_io\<close> further down. The delimiter is modelled
  as one byte: \<open>validDelim\<close> is Go's check (not NUL, quote, CR or LF) narrowed to the ASCII
  range, so that delimiters beyond it are outside the model.
\<close>

record Writer =
  Comma :: char
  UseCRLF :: bool
  out :: string

definition validDelim :: "char \<Rightarrow> bool" where
  "validDelim r =
     (r \<noteq> CHR 0x00 \<and> r \<noteq> dquote \<and> r \<noteq> cr \<and> r \<noteq> newline \<and> (of_char r :: nat) < 0x80)"

text \<open>
  \<^verbatim>\<open>unicode.IsSpace\<close> of the first rune of a field, read off the UTF-8 bytes: the ASCII
  white space, U+0085, U+00A0, U+1680, U+2000 to U+200A, U+2028, U+2029, U+202F, U+205F
  and U+3000.
\<close>

definition spaceRunes :: "string list" where
  "spaceRunes =
     [[CHR 0x09], [CHR 0x0A], [CHR 0x0B], [CHR 0x0C], [CHR 0x0D], [CHR 0x20],
      [CHR 0xC2, CHR 0x85], [CHR 0xC2, CHR 0xA0], [CHR 0xE1, CHR 0x9A, CHR 0x80],
      [CHR 0xE2, CHR 0x80, CHR 0x80], [CHR 0xE2, CHR 0x80, CHR 0x81],
      [CHR 0xE2, CHR 0x80, CHR 0x82], [CHR 0xE2, CHR 0x80, CHR 0x83],
      [CHR 0xE2, CHR 0x80, CHR 0x84], [CHR 0xE2, CHR 0x80, CHR 0x85],
      [CHR 0xE2, CHR 0x80, CHR 0x86], [CHR 0xE2, CHR 0x80, CHR 0x87],
      [CHR 0xE2, CHR 0x80, CHR 0x88], [CHR 0xE2, CHR 0x80, CHR 0x89],
      [CHR 0xE2, CHR 0x80, CHR 0x8A], [CHR 0xE2, CHR 0x80, CHR 0xA8],
      [CHR 0xE2, CHR 0x80, CHR 0xA9], [CHR 0xE2, CHR 0x80, CHR 0xAF],
      [CHR 0xE2, CHR 0x81, CHR 0x9F], [CHR 0xE3, CHR 0x80, CHR 0x80]]"

definition startsWithSpace :: "string \<Rightarrow> bool" where
  "startsWithSpace field = list_ex (HasPrefix field) spaceRunes"

text \<open>\<^verbatim>\<open>(*Writer).fieldNeedsQuotes\<close>.\<close>

definition fieldNeedsQuotes :: "Writer \<Rightarrow> string \<Rightarrow> bool" where
  "fieldNeedsQuotes w field =
     (if field = [] then False
      else if field = [backslash, CHR ''.''] \<or> Comma w \<in> set field
              \<or> dquote \<in> set field \<or> cr \<in> set field \<or> newline \<in> set field then True
      else startsWithSpace field)"

text \<open>
  The loop of \<^verbatim>\<open>Write\<close> over a field that needs quotes: a quote is doubled, and CR and
  LF are written according to \<^verbatim>\<open>UseCRLF\<close>.
\<close>

fun quoteBody :: "bool \<Rightarrow> string \<Rightarrow> string" where
  "quoteBody crlf [] = []"
| "quoteBody crlf (c # cs) =
     (if c = dquote then [dquote, dquote]
      else if c = cr then (if crlf then [] else [cr])
      else if c = newline then (if crlf then [cr, newline] else [newline])
      else [c]) @ quoteBody crlf cs"

definition writeField :: "Writer \<Rightarrow> string \<Rightarrow> string" where
  "writeField w field =
     (if fieldNeedsQuotes w field then [dquote] @ quoteBody (UseCRLF w) field @ [dquote]
      else field)"

fun writeFields :: "Writer \<Rightarrow> string list \<Rightarrow> string" where
  "writeFields w [] = []"
| "writeFields w [f] = writeField w f"
| "writeFields w (f # g # fs) = writeField w f @ [Comma w] @ writeFields w (g # fs)"

definition endOfRecord :: "Writer \<Rightarrow> string" where
  "endOfRecord w = (if UseCRLF w then [cr, newline] else [newline])"

text \<open>
  \<^verbatim>\<open>samplers.MetricType\<close> is declared outside \<^verbatim>\<open>csv.go\<close>, which names two of its
  values; \<open>OtherMetric\<close> stands for every other value of the type.
\<close>

datatype MetricType = CounterMetric | GaugeMetric | OtherMetric nat

text \<open>
  The errors: \<^verbatim>\<open>errInvalidDelim\<close> of \<^verbatim>\<open>encoding/csv\<close>, the error that \<^verbatim>\<open>csv.go\<close>
  makes for a metric type it does not know, and an error of the output stream, with its
  message.
\<close>

datatype error = ErrInvalidDelim | UnknownMetricType MetricType | StreamError string

text \<open>\<^verbatim>\<open>(*Writer).Write(record)\<close>: the error it returns and the writer afterwards.\<close>

definition Write :: "Writer \<Rightarrow> string list \<Rightarrow> error option \<times> Writer" where
  "Write w record =
     (if \<not> validDelim (Comma w) then (Some ErrInvalidDelim, w)
      else (None, w\<lparr>out := out w @ writeFields w record @ endOfRecord w\<rparr>))"

text \<open>\<^verbatim>\<open>(*Writer).Error()\<close>: the stream's sticky error, which is never set.\<close>

definition Error :: "Writer \<Rightarrow> error option" where
  "Error w = None"

text \<open>
  The stream behind a writer can fail (a full disk, a closed connection). The
  \<^verbatim>\<open>bufio.Writer\<close> inside a \<^verbatim>\<open>csv.Writer\<close> keeps the first error of its stream: from
  then on it drops every byte handed to it and returns that error, and
  \<^verbatim>\<open>(*Writer).Error()\<close> returns it too. A \<open>Writer_io\<close> is a writer together with that
  sticky error, \<open>None\<close> as long as the stream has accepted everything. A stream that fails
  is taken to have failed before the call in question, not in the middle of a record.
\<close>

record Writer_io =
  writer :: Writer
  streamErr :: "error option"

text \<open>
  \<^verbatim>\<open>(*Writer).Write(record)\<close> on such a writer. The delimiter is checked first; then the
  first write to a failed stream returns the stream's error and nothing is accepted.
\<close>

definition Write_io :: "Writer_io \<Rightarrow> string list \<Rightarrow> error option \<times> Writer_io" where
  "Write_io s record =
     (if \<not> validDelim (Comma (writer s)) then (Some ErrInvalidDelim, s)
      else case streamErr s of
             Some e \<Rightarrow> (Some e, s)
           | None \<Rightarrow>
               (None, s\<lparr>writer := (writer s)\<lparr>out := out (writer s)
                                    @ writeFields (writer s) record @ endOfRecord (writer s)\<rparr>\<rparr>))"

text \<open>\<^verbatim>\<open>(*Writer).Error()\<close> on such a writer: the stream's sticky error.\<close>

definition Error_io :: "Writer_io \<Rightarrow> error option" where
  "Error_io s = streamErr s"

subsection \<open>\<^verbatim>\<open>time\<close>: instants, the calendar and \<^verbatim>\<open>Format\<close>\<close>

text \<open>
  A \<^verbatim>\<open>time.Time\<close> is modelled by its instant: the seconds since the Unix epoch and the
  nanoseconds within the second. Both call sites of \<^verbatim>\<open>csv.go\<close> format
  \<^verbatim>\<open>t.UTC()\<close>, so the location is always UTC and is left out of the model.
\<close>

record Time =
  unixSec :: int
  nsec :: nat

text \<open>\<^verbatim>\<open>time.Unix(sec, nsec)\<close> for \<open>0 \<le> nsec < 10\<^sup>9\<close>.\<close>

definition Unix :: "int \<Rightarrow> nat \<Rightarrow> Time" where
  "Unix sec ns = \<lparr>unixSec = sec, nsec = ns\<rparr>"

text \<open>
  \<^verbatim>\<open>Time.abs\<close>: seconds since the first of January of the year \<open>-292277022399\<close>, as an
  unsigned 64-bit number (the sum wraps around).
\<close>

definition absoluteZeroYear :: int where
  "absoluteZeroYear = - 292277022399"

definition abs_sec :: "Time \<Rightarrow> nat" where
  "abs_sec t = nat ((unixSec t + 9223372028715321600) mod 2 ^ 64)"

definition isLeap :: "int \<Rightarrow> bool" where
  "isLeap year = (year mod 4 = 0 \<and> (year mod 100 \<noteq> 0 \<or> year mod 400 = 0))"

definition daysBefore :: "nat list" where
  "daysBefore = [0, 31, 59, 90, 120, 151, 181, 212, 243, 273, 304, 334, 365]"

text \<open>
  \<^verbatim>\<open>absDate(abs, true)\<close>: year, month (January is 1), day of the month and day of the
  year (from 0), by cutting off cycles of 400, 100, 4 and 1 years.
\<close>

definition absDate :: "nat \<Rightarrow> int \<times> nat \<times> nat \<times> nat" where
  "absDate a =
     (let d = a div 86400;
          n400 = d div 146097;
          d1 = d - 146097 * n400;
          n100 = d1 div 36524;
          n100' = n100 - n100 div 4;
          d2 = d1 - 36524 * n100';
          n4 = d2 div 1461;
          d3 = d2 - 1461 * n4;
          n1 = d3 div 365;
          n1' = n1 - n1 div 4;
          yday = d3 - 365 * n1';
          year = int (400 * n400 + 100 * n100' + 4 * n4 + n1') + absoluteZeroYear
      in if isLeap year \<and> yday = 31 + 29 - 1 then (year, 2, 29, yday)
         else
           (let day = (if isLeap year \<and> yday > 31 + 29 - 1 then yday - 1 else yday);
                m = day div 31;
                end = daysBefore ! (m + 1)
            in if day \<ge> end then (year, m + 2, day - end + 1, yday)
               else (year, m + 1, day - daysBefore ! m + 1, yday)))"

text \<open>\<^verbatim>\<open>absClock\<close> and \<^verbatim>\<open>absWeekday\<close> (Sunday is 0; the absolute epoch is a Monday).\<close>

definition absClock :: "nat \<Rightarrow> nat \<times> nat \<times> nat" where
  "absClock a =
     (let s = a mod 86400; hour = s div 3600; s' = s - hour * 3600; mi = s' div 60
      in (hour, mi, s' - mi * 60))"

definition absWeekday :: "nat \<Rightarrow> nat" where
  "absWeekday a = ((a + 86400) mod 604800) div 86400"

definition longDayNames :: "string list" where
  "longDayNames =
     [''Sunday'', ''Monday'', ''Tuesday'', ''Wednesday'', ''Thursday'', ''Friday'',
      ''Saturday'']"

definition longMonthNames :: "string list" where
  "longMonthNames =
     [''January'', ''February'', ''March'', ''April'', ''May'', ''June'', ''July'',
      ''August'', ''September'', ''October'', ''November'', ''December'']"

text \<open>Decimal digits, and \<^verbatim>\<open>appendInt(b, x, width)\<close>: sign, zero padding, digits.\<close>

definition digit :: "nat \<Rightarrow> char" where
  "digit d = ''0123456789'' ! d"

fun natDigits :: "nat \<Rightarrow> string" where
  "natDigits n = (if n < 10 then [digit n] else natDigits (n div 10) @ [digit (n mod 10)])"

declare natDigits.simps [simp del]

definition appendInt :: "int \<Rightarrow> nat \<Rightarrow> string" where
  "appendInt x width =
     (let ds = natDigits (nat \<bar>x\<bar>)
      in (if x < 0 then ''-'' else []) @ replicate (width - length ds) CHR ''0'' @ ds)"

text \<open>
  The elements of a layout string (\<^verbatim>\<open>stdLongMonth\<close>, \<^verbatim>\<open>stdZeroDay\<close>, ...). A fractional
  second carries its number of digits and its separator.
\<close>

datatype stdChunk =
    stdLongMonth | stdMonth | stdNumMonth | stdZeroMonth
  | stdLongWeekDay | stdWeekDay
  | stdDay | stdUnderDay | stdZeroDay | stdUnderYearDay | stdZeroYearDay
  | stdHour | stdHour12 | stdZeroHour12
  | stdMinute | stdZeroMinute | stdSecond | stdZeroSecond
  | stdLongYear | stdYear | stdPM | stdpm | stdTZ
  | stdISO8601TZ | stdISO8601SecondsTZ | stdISO8601ShortTZ
  | stdISO8601ColonTZ | stdISO8601ColonSecondsTZ
  | stdNumTZ | stdNumSecondsTz | stdNumShortTZ | stdNumColonTZ | stdNumColonSecondsTZ
  | stdFracSecond0 nat char | stdFracSecond9 nat char

definition isDigit :: "char \<Rightarrow> bool" where
  "isDigit c = (c \<in> set ''0123456789'')"

definition startsWithLowerCase :: "string \<Rightarrow> bool" where
  "startsWithLowerCase s =
     (case s of [] \<Rightarrow> False | c # _ \<Rightarrow> c \<in> set ''abcdefghijklmnopqrstuvwxyz'')"

definition std0x :: "stdChunk list" where
  "std0x = [stdZeroMonth, stdZeroDay, stdZeroHour12, stdZeroMinute, stdZeroSecond, stdYear]"

text \<open>
  One step of \<^verbatim>\<open>nextStdChunk\<close>: the element that starts at the head of the layout, if
  there is one, as the literal text written before it (only \<^verbatim>\<open>_2006\<close> has some), the
  element, and the number of layout bytes it takes.
\<close>

definition stdAt :: "string \<Rightarrow> (string \<times> stdChunk \<times> nat) option" where
  "stdAt l =
     (case l of
        [] \<Rightarrow> None
      | c # cs \<Rightarrow>
          if c = CHR ''J'' then
            (if HasPrefix l ''January'' then Some ([], stdLongMonth, 7)
             else if HasPrefix l ''Jan'' \<and> \<not> startsWithLowerCase (drop 3 l)
               then Some ([], stdMonth, 3)
             else None)
          else if c = CHR ''M'' then
            (if HasPrefix l ''Monday'' then Some ([], stdLongWeekDay, 6)
             else if HasPrefix l ''Mon'' \<and> \<not> startsWithLowerCase (drop 3 l)
               then Some ([], stdWeekDay, 3)
             else if HasPrefix l ''MST'' then Some ([], stdTZ, 3)
             else None)
          else if c = CHR ''0'' then
            (if cs \<noteq> [] \<and> hd cs \<in> set ''123456''
               then Some ([], std0x ! (of_char (hd cs) - 49), 2)
             else if HasPrefix l ''002'' then Some ([], stdZeroYearDay, 3)
             else None)
          else if c = CHR ''1'' then
            (if HasPrefix l ''15'' then Some ([], stdHour, 2) else Some ([], stdNumMonth, 1))
          else if c = CHR ''2'' then
            (if HasPrefix l ''2006'' then Some ([], stdLongYear, 4) else Some ([], stdDay, 1))
          else if c = CHR ''_'' then
            (if HasPrefix l ''_2006'' then Some (''_'', stdLongYear, 5)
             else if HasPrefix l ''_2'' then Some ([], stdUnderDay, 2)
             else if HasPrefix l ''__2'' then Some ([], stdUnderYearDay, 3)
             else None)
          else if c = CHR ''3'' then Some ([], stdHour12, 1)
          else if c = CHR ''4'' then Some ([], stdMinute, 1)
          else if c = CHR ''5'' then Some ([], stdSecond, 1)
          else if c = CHR ''P'' then
            (if HasPrefix l ''PM'' then Some ([], stdPM, 2) else None)
          else if c = CHR ''p'' then
            (if HasPrefix l ''pm'' then Some ([], stdpm, 2) else None)
          else if c = CHR ''-'' then
            (if HasPrefix l ''-070000'' then Some ([], stdNumSecondsTz, 7)
             else if HasPrefix l ''-07:00:00'' then Some ([], stdNumColonSecondsTZ, 9)
             else if HasPrefix l ''-0700'' then Some ([], stdNumTZ, 5)
             else if HasPrefix l ''-07:00'' then Some ([], stdNumColonTZ, 6)
             else if HasPrefix l ''-07'' then Some ([], stdNumShortTZ, 3)
             else None)
          else if c = CHR ''Z'' then
            (if HasPrefix l ''Z070000'' then Some ([], stdISO8601SecondsTZ, 7)
             else if HasPrefix l ''Z07:00:00'' then Some ([], stdISO8601ColonSecondsTZ, 9)
             else if HasPrefix l ''Z0700'' then Some ([], stdISO8601TZ, 5)
             else if HasPrefix l ''Z07:00'' then Some ([], stdISO8601ColonTZ, 6)
             else if HasPrefix l ''Z07'' then Some ([], stdISO8601ShortTZ, 3)
             else None)
          else if c = CHR ''.'' \<or> c = CHR '','' then
            (if cs \<noteq> [] \<and> (hd cs = CHR ''0'' \<or> hd cs = CHR ''9'') then
               (let n = length (takeWhile (\<lambda>x. x = hd cs) cs);
                    after = drop n cs
                in if after \<noteq> [] \<and> isDigit (hd after) then None
                   else if hd cs = CHR ''0'' then Some ([], stdFracSecond0 n c, 1 + n)
                   else Some ([], stdFracSecond9 n c, 1 + n))
             else None)
          else None)"

text \<open>\<^verbatim>\<open>appendNano\<close>: the fractional second, with trailing zeros cut for the \<^verbatim>\<open>9\<close> form.\<close>

definition trimZeros :: "string \<Rightarrow> string" where
  "trimZeros s = rev (dropWhile (\<lambda>c. c = CHR ''0'') (rev s))"

definition appendNano :: "nat \<Rightarrow> nat \<Rightarrow> char \<Rightarrow> bool \<Rightarrow> string" where
  "appendNano ns n sep trim =
     (let ds = take n (appendInt (int ns) 9)
      in if trim then (if trimZeros ds = [] then [] else sep # trimZeros ds)
         else sep # ds)"

text \<open>
  The time zone elements at offset 0: the \<^verbatim>\<open>Z\<close> forms print \<^verbatim>\<open>Z\<close>, the numeric forms
  print a zero offset.
\<close>

definition zoneUTC :: "stdChunk \<Rightarrow> string" where
  "zoneUTC std =
     (if std \<in> {stdISO8601TZ, stdISO8601ColonTZ, stdISO8601SecondsTZ, stdISO8601ShortTZ,
                 stdISO8601ColonSecondsTZ} then ''Z''
      else ''+'' @ appendInt 0 2
        @ (if std \<in> {stdNumColonTZ, stdNumColonSecondsTZ} then '':'' else [])
        @ (if std \<noteq> stdNumShortTZ then appendInt 0 2 else [])
        @ (if std \<in> {stdNumSecondsTz, stdNumColonSecondsTZ}
           then (if std = stdNumColonSecondsTZ then '':'' else []) @ appendInt 0 2
           else []))"

text \<open>The body of the loop of \<^verbatim>\<open>appendFormat\<close>: what one element prints.\<close>

definition appendStd :: "Time \<Rightarrow> stdChunk \<Rightarrow> string" where
  "appendStd t std =
     (let a = abs_sec t;
          (year, month, day, yday0) = absDate a;
          yday = yday0 + 1;
          (hour, mi, sec) = absClock a;
          hr = (if hour mod 12 = 0 then 12 else hour mod 12)
      in case std of
           stdYear \<Rightarrow> appendInt (\<bar>year\<bar> mod 100) 2
         | stdLongYear \<Rightarrow> appendInt year 4
         | stdMonth \<Rightarrow> take 3 (longMonthNames ! (month - 1))
         | stdLongMonth \<Rightarrow> longMonthNames ! (month - 1)
         | stdNumMonth \<Rightarrow> appendInt (int month) 0
         | stdZeroMonth \<Rightarrow> appendInt (int month) 2
         | stdWeekDay \<Rightarrow> take 3 (longDayNames ! absWeekday a)
         | stdLongWeekDay \<Rightarrow> longDayNames ! absWeekday a
         | stdDay \<Rightarrow> appendInt (int day) 0
         | stdUnderDay \<Rightarrow> (if day < 10 then '' '' else []) @ appendInt (int day) 0
         | stdZeroDay \<Rightarrow> appendInt (int day) 2
         | stdUnderYearDay \<Rightarrow>
             (if yday < 100 then '' '' @ (if yday < 10 then '' '' else []) else [])
               @ appendInt (int yday) 0
         | stdZeroYearDay \<Rightarrow> appendInt (int yday) 3
         | stdHour \<Rightarrow> appendInt (int hour) 2
         | stdHour12 \<Rightarrow> appendInt (int hr) 0
         | stdZeroHour12 \<Rightarrow> appendInt (int hr) 2
         | stdMinute \<Rightarrow> appendInt (int mi) 0
         | stdZeroMinute \<Rightarrow> appendInt (int mi) 2
         | stdSecond \<Rightarrow> appendInt (int sec) 0
         | stdZeroSecond \<Rightarrow> appendInt (int sec) 2
         | stdPM \<Rightarrow> (if hour \<ge> 12 then ''PM'' else ''AM'')
         | stdpm \<Rightarrow> (if hour \<ge> 12 then ''pm'' else ''am'')
         | stdTZ \<Rightarrow> ''UTC''
         | stdFracSecond0 n sep \<Rightarrow> appendNano (nsec t) n sep False
         | stdFracSecond9 n sep \<Rightarrow> appendNano (nsec t) n sep True
         | _ \<Rightarrow> zoneUTC std)"

text \<open>
  \<^verbatim>\<open>appendFormat\<close>: layout bytes outside an element are copied; \<open>skip\<close> counts the
  bytes of the current element still to pass over.
\<close>

fun appendFormat :: "Time \<Rightarrow> nat \<Rightarrow> string \<Rightarrow> string" where
  "appendFormat t skip [] = []"
| "appendFormat t skip (c # cs) =
     (if skip > 0 then appendFormat t (skip - 1) cs
      else case stdAt (c # cs) of
             None \<Rightarrow> c # appendFormat t 0 cs
           | Some (lit, std, n) \<Rightarrow> lit @ appendStd t std @ appendFormat t (n - 1) cs)"

text \<open>\<^verbatim>\<open>t.UTC().Format(layout)\<close>.\<close>

definition Format :: "Time \<Rightarrow> string \<Rightarrow> string" where
  "Format t layout = appendFormat t 0 layout"

section \<open>\<^verbatim>\<open>plugins/s3/csv.go\<close>\<close>

definition PartitionDateFormat :: string where
  "PartitionDateFormat = ''20060102''"

text \<open>
  \<^verbatim>\<open>tsvField\<close>: the constants count up from 0 in the order of their declaration
  (\<^verbatim>\<open>iota\<close>), and that number is the column of the field.
\<close>

type_synonym tsvField = nat

definition TsvName :: tsvField where "TsvName = 0"
definition TsvTags :: tsvField where "TsvTags = 1"
definition TsvMetricType :: tsvField where "TsvMetricType = 2"
definition TsvVeneurHostname :: tsvField where "TsvVeneurHostname = 3"
definition TsvInterval :: tsvField where "TsvInterval = 4"
definition TsvTimestamp :: tsvField where "TsvTimestamp = 5"
definition TsvValue :: tsvField where "TsvValue = 6"
definition TsvPartition :: tsvField where "TsvPartition = 7"

text \<open>
  An array literal with keys, \<^verbatim>\<open>[...]string{k: v, ...}\<close>, has one slot more than its
  largest key and fills the slots in the order the literal lists them.
\<close>

definition tsvSchema :: "string list" where
  "tsvSchema = (replicate 8 [])
     [TsvName := ''Name'', TsvTags := ''Tags'', TsvMetricType := ''MetricType'',
      TsvInterval := ''Interval'', TsvVeneurHostname := ''VeneurHostname'',
      TsvTimestamp := ''Timestamp'', TsvValue := ''Value'', TsvPartition := ''Partition'']"

text \<open>
  \<^verbatim>\<open>samplers.InterMetric\<close>, with the fields \<^verbatim>\<open>csv.go\<close> reads. \<open>'f\<close> is the type of
  \<^verbatim>\<open>float64\<close> values: the encoder divides two of them and prints them, and takes both
  operations as arguments, \<open>quo\<close> for \<^verbatim>\<open>/\<close> and \<open>FormatFloat\<close> for
  \<^verbatim>\<open>strconv.FormatFloat(x, 'f', -1, 64)\<close>.
\<close>

record 'f InterMetric =
  Name :: string
  Timestamp :: int
  Value :: 'f
  Tags :: "string list"
  Type :: MetricType

text \<open>
  \<^verbatim>\<open>EncodeInterMetricCSV(d, w, partitionDate, hostName, interval, timeFormat, tags)\<close>:
  the error returned and the writer afterwards. The result of \<^verbatim>\<open>w.Write\<close> is dropped
  and \<^verbatim>\<open>w.Error()\<close> is returned, as in the source.
\<close>

definition EncodeInterMetricCSV ::
  "('f \<Rightarrow> 'f \<Rightarrow> 'f) \<Rightarrow> ('f \<Rightarrow> string) \<Rightarrow> ('f, 'm) InterMetric_scheme \<Rightarrow> Writer \<Rightarrow> Time
     \<Rightarrow> string \<Rightarrow> 'f \<Rightarrow> string \<Rightarrow> string list \<Rightarrow> error option \<times> Writer" where
  "EncodeInterMetricCSV quo FormatFloat d w partitionDate hostName interval timeFormat tags =
     (let allTags = tags @ Tags d;
          jsonTags = ''{'' @ Join allTags '','' @ ''}'';
          switch = (case Type d of
                      CounterMetric \<Rightarrow> Inr (''rate'', quo (Value d) interval)
                    | GaugeMetric \<Rightarrow> Inr (''gauge'', Value d)
                    | OtherMetric k \<Rightarrow> Inl (UnknownMetricType (Type d)))
      in case switch of
           Inl e \<Rightarrow> (Some e, w)
         | Inr (metricType, metricValue) \<Rightarrow>
             (let fields = (replicate 8 [])
                    [TsvName := Name d,
                     TsvTags := jsonTags,
                     TsvMetricType := metricType,
                     TsvInterval := FormatFloat interval,
                     TsvVeneurHostname := hostName,
                     TsvValue := FormatFloat metricValue,
                     TsvTimestamp := Format (Unix (Timestamp d) 0) timeFormat,
                     TsvPartition := Format partitionDate PartitionDateFormat];
                  w' = snd (Write w fields)
              in (Error w', w')))"

text \<open>
  The same function on a writer whose stream may have failed: the calls of \<^verbatim>\<open>w.Write\<close>
  and \<^verbatim>\<open>w.Error()\<close> are those of \<open>Writer_io\<close>.
\<close>

definition EncodeInterMetricCSV_io ::
  "('f \<Rightarrow> 'f \<Rightarrow> 'f) \<Rightarrow> ('f \<Rightarrow> string) \<Rightarrow> ('f, 'm) InterMetric_scheme \<Rightarrow> Writer_io \<Rightarrow> Time
     \<Rightarrow> string \<Rightarrow> 'f \<Rightarrow> string \<Rightarrow> string list \<Rightarrow> error option \<times> Writer_io" where
  "EncodeInterMetricCSV_io quo FormatFloat d w partitionDate hostName interval timeFormat tags =
     (let allTags = tags @ Tags d;
          jsonTags = ''{'' @ Join allTags '','' @ ''}'';
          switch = (case Type d of
                      CounterMetric \<Rightarrow> Inr (''rate'', quo (Value d) interval)
                    | GaugeMetric \<Rightarrow> Inr (''gauge'', Value d)
                    | OtherMetric k \<Rightarrow> Inl (UnknownMetricType (Type d)))
      in case switch of
           Inl e \<Rightarrow> (Some e, w)
         | Inr (metricType, metricValue) \<Rightarrow>
             (let fields = (replicate 8 [])
                    [TsvName := Name d,
                     TsvTags := jsonTags,
                     TsvMetricType := metricType,
                     TsvInterval := FormatFloat interval,
                     TsvVeneurHostname := hostName,
                     TsvValue := FormatFloat metricValue,
                     TsvTimestamp := Format (Unix (Timestamp d) 0) timeFormat,
                     TsvPartition := Format partitionDate PartitionDateFormat];
                  w' = snd (Write_io w fields)
              in (Error_io w', w')))"

section \<open>An instance of the \<^verbatim>\<open>float64\<close> operations for worked examples\<close>

text \<open>
  The examples below run the encoder on real numbers: \<open>quo\<close> is division and
  \<open>FormatReal\<close> prints a number in decimal notation without exponent, as
  \<^verbatim>\<open>strconv.FormatFloat(x, 'f', -1, 64)\<close> prints a \<^verbatim>\<open>float64\<close> whose shortest decimal is
  that number (100 as \<^verbatim>\<open>100\<close>, one half as \<^verbatim>\<open>0.5\<close>).
\<close>

fun fracDigits :: "nat \<Rightarrow> real \<Rightarrow> string" where
  "fracDigits k x =
     (if k = 0 \<or> x = 0 then []
      else digit (nat \<lfloor>x * 10\<rfloor>) # fracDigits (k - 1) (x * 10 - of_int \<lfloor>x * 10\<rfloor>))"

declare fracDigits.simps [simp del]

definition FormatReal :: "real \<Rightarrow> string" where
  "FormatReal x =
     (let a = \<bar>x\<bar>; i = \<lfloor>a\<rfloor>; f = a - of_int i
      in (if x < 0 then ''-'' else []) @ natDigits (nat i)
           @ (if f = 0 then [] else ''.'' @ fracDigits 17 f))"

text \<open>
  The writer of the sink and of \<^verbatim>\<open>TestEncodeCSV\<close>: \<^verbatim>\<open>csv.NewWriter(b)\<close> with
  \<^verbatim>\<open>w.Comma = '\t'\<close>, nothing written yet.
\<close>

definition NewTabWriter :: Writer where
  "NewTabWriter = \<lparr>Comma = tab, UseCRLF = False, out = []\<rparr>"

text \<open>A counter and a gauge for the examples, stamped 1476119058 (2016-10-10 17:04:18 UTC).\<close>

definition exampleCounter :: "real InterMetric" where
  "exampleCounter =
     \<lparr>Name = ''a.b.c'', Timestamp = 1476119058, Value = 5, Tags = [''foo:bar'', ''baz:quz''],
      Type = CounterMetric\<rparr>"

definition exampleGauge :: "real InterMetric" where
  "exampleGauge =
     \<lparr>Name = ''a.b.c.max'', Timestamp = 1476119058, Value = 100,
      Tags = [''foo:bar'', ''baz:quz''], Type = GaugeMetric\<rparr>"

text \<open>
  The counter of the test case \<^verbatim>\<open>TabTag\<close>, whose first tag holds a tab, and a gauge
  with a tag that holds double quotes and no tab.
\<close>

definition tabTagCounter :: "real InterMetric" where
  "tabTagCounter =
     \<lparr>Name = ''a.b.c.max'', Timestamp = 1476119058, Value = 1000,
      Tags = [''foo:b'' @ [tab] @ ''ar'', ''baz:quz''], Type = CounterMetric\<rparr>"

definition quotedTagGauge :: "real InterMetric" where
  "quotedTagGauge =
     \<lparr>Name = ''a.b.c.max'', Timestamp = 1476119058, Value = 100,
      Tags = [''msg:say '' @ [dquote] @ ''hi'' @ [dquote]], Type = GaugeMetric\<rparr>"

text \<open>
  A gauge whose name starts with a space and whose tag holds a line feed; neither holds a
  tab or a double quote.
\<close>

definition lineBreakGauge :: "real InterMetric" where
  "lineBreakGauge =
     \<lparr>Name = '' a.b.c'', Timestamp = 1476119058, Value = 100,
      Tags = [''note:one'' @ [newline] @ ''two''], Type = GaugeMetric\<rparr>"


section \<open>The samplers, modelled from the specification\<close>

text \<open>
  Modelled from the spec: the output metric \<^verbatim>\<open>DDMetric\<close> (section 3, "Output metric"),
  whose declaration is not among the sources. The fields are those of the test's struct
  literals; the value is the single pair of a Unix time in seconds and a number, the
  interval a whole number of seconds.
\<close>

record DDMetric =
  DD_Name :: string
  DD_Value :: "int \<times> real"
  DD_Tags :: "string list"
  DD_MetricType :: string
  DD_Hostname :: string
  DD_DeviceName :: string
  DD_Interval :: int




text \<open>
  Modelled from the spec: the counter (section 3, "Counter", and section 4.2), whose code
  is not among the sources. It holds a name, tags and a sum; a sample adds
  \<open>value / sample_rate\<close>; a flush over \<open>interval\<close> seconds gives one metric of type
  \<^verbatim>\<open>rate\<close> with value \<open>sum / interval\<close> and the interval in its interval field. The time
  of the flush is the argument \<open>now\<close>. Numbers are real numbers.
\<close>

record Counter =
  counterName :: string
  counterTags :: "string list"
  counterSum :: real

definition NewCounter :: "string \<Rightarrow> string list \<Rightarrow> Counter" where
  "NewCounter name tags = \<lparr>counterName = name, counterTags = tags, counterSum = 0\<rparr>"

definition Counter_Sample :: "Counter \<Rightarrow> real \<Rightarrow> real \<Rightarrow> Counter" where
  "Counter_Sample c sample sampleRate = c\<lparr>counterSum := counterSum c + sample / sampleRate\<rparr>"

definition Counter_Flush :: "Counter \<Rightarrow> int \<Rightarrow> int \<Rightarrow> DDMetric list" where
  "Counter_Flush c interval now =
     [\<lparr>DD_Name = counterName c, DD_Value = (now, counterSum c / of_int interval),
       DD_Tags = counterTags c, DD_MetricType = ''rate'', DD_Hostname = [],
       DD_DeviceName = [], DD_Interval = interval\<rparr>]"

text \<open>
  Modelled from the spec: the gauge (section 3, "Gauge", and section 4.2), whose code is
  not among the sources. It holds a name, tags and the last value; a sample stores its
  value; a flush gives one metric of type \<^verbatim>\<open>gauge\<close> with that value and interval 0.
\<close>

record Gauge =
  gaugeName :: string
  gaugeTags :: "string list"
  gaugeLast :: real

definition NewGauge :: "string \<Rightarrow> string list \<Rightarrow> Gauge" where
  "NewGauge name tags = \<lparr>gaugeName = name, gaugeTags = tags, gaugeLast = 0\<rparr>"

definition Gauge_Sample :: "Gauge \<Rightarrow> real \<Rightarrow> real \<Rightarrow> Gauge" where
  "Gauge_Sample g sample sampleRate = g\<lparr>gaugeLast := sample\<rparr>"

definition Gauge_Flush :: "Gauge \<Rightarrow> int \<Rightarrow> DDMetric list" where
  "Gauge_Flush g now =
     [\<lparr>DD_Name = gaugeName g, DD_Value = (now, gaugeLast g), DD_Tags = gaugeTags g,
       DD_MetricType = ''gauge'', DD_Hostname = [], DD_DeviceName = [], DD_Interval = 0\<rparr>]"

text \<open>Sending a sequence of samples, each a value and its sample rate, in order.\<close>

definition Counter_Samples :: "Counter \<Rightarrow> (real \<times> real) list \<Rightarrow> Counter" where
  "Counter_Samples c samples = foldl (\<lambda>c (v, r). Counter_Sample c v r) c samples"

definition Gauge_Samples :: "Gauge \<Rightarrow> (real \<times> real) list \<Rightarrow> Gauge" where
  "Gauge_Samples g samples = foldl (\<lambda>g (v, r). Gauge_Sample g v r) g samples"

section \<open>Evaluating the library functions\<close>

lemmas tsv_defs = TsvName_def TsvTags_def TsvMetricType_def TsvVeneurHostname_def
  TsvInterval_def TsvTimestamp_def TsvValue_def TsvPartition_def

lemmas byte_defs = tab_def newline_def cr_def dquote_def backslash_def

lemmas time_defs = Format_def stdAt_def HasPrefix_def std0x_def appendStd_def absDate_def
  abs_sec_def Unix_def isLeap_def daysBefore_def absoluteZeroYear_def absClock_def
  appendInt_def natDigits.simps digit_def

lemmas csv_defs = fieldNeedsQuotes_def writeField_def startsWithSpace_def spaceRunes_def
  HasPrefix_def endOfRecord_def validDelim_def

lemma fields_literal:
  "(replicate 8 [])[TsvName := a, TsvTags := b, TsvMetricType := c, TsvInterval := e,
      TsvVeneurHostname := h, TsvValue := v, TsvTimestamp := t, TsvPartition := p]
   = [a, b, c, h, e, t, v, p]"
  by (simp add: tsv_defs eval_nat_numeral)

lemma tsvSchema_columns:
  "tsvSchema = [''Name'', ''Tags'', ''MetricType'', ''VeneurHostname'', ''Interval'',
     ''Timestamp'', ''Value'', ''Partition'']"
  unfolding tsvSchema_def tsv_defs by (simp add: eval_nat_numeral)

lemma validDelim_tab: "validDelim tab"
  by (simp add: validDelim_def byte_defs)

lemma Format_partition:
  "Format t PartitionDateFormat =
     (case absDate (abs_sec t) of (year, month, day, yday) \<Rightarrow>
        appendInt year 4 @ appendInt (int month) 2 @ appendInt (int day) 2)"
  by (simp add: Format_def PartitionDateFormat_def stdAt_def HasPrefix_def std0x_def
      appendStd_def Let_def split: prod.splits)

lemma Format_example_stamp:
  "Format (Unix 1476119058 0) ''2006-01-02 03:04:05'' = ''2016-10-10 05:04:18''"
  by (simp add: time_defs cong: let_weak_cong)



lemma Format_example_partition:
  "Format (Unix 1476144000 0) PartitionDateFormat = ''20161011''"
  by (simp add: time_defs PartitionDateFormat_def cong: let_weak_cong)

lemma FormatReal_examples:
  "FormatReal 100 = ''100''" "FormatReal 10 = ''10''" "FormatReal 0 = ''0''"
  "FormatReal 1 = ''1''" "FormatReal (5 / 10) = ''0.5''"
  by (simp_all add: FormatReal_def natDigits.simps fracDigits.simps digit_def)

section \<open>The encoder, case by case\<close>

lemma Encode_unknown:
  "Type d = OtherMetric k \<Longrightarrow>
   EncodeInterMetricCSV quo FormatFloat d w partitionDate hostName interval timeFormat tags
     = (Some (UnknownMetricType (OtherMetric k)), w)"
  by (simp add: EncodeInterMetricCSV_def)

lemma Encode_counter:
  "Type d = CounterMetric \<Longrightarrow> validDelim (Comma w) \<Longrightarrow>
   EncodeInterMetricCSV quo FormatFloat d w partitionDate hostName interval timeFormat tags
     = (None, w\<lparr>out := out w @ writeFields w
          [Name d, ''{'' @ Join (tags @ Tags d) '','' @ ''}'', ''rate'', hostName,
           FormatFloat interval, Format (Unix (Timestamp d) 0) timeFormat,
           FormatFloat (quo (Value d) interval), Format partitionDate PartitionDateFormat]
          @ endOfRecord w\<rparr>)"
  by (simp add: EncodeInterMetricCSV_def fields_literal Write_def Error_def Let_def)

lemma Encode_gauge:
  "Type d = GaugeMetric \<Longrightarrow> validDelim (Comma w) \<Longrightarrow>
   EncodeInterMetricCSV quo FormatFloat d w partitionDate hostName interval timeFormat tags
     = (None, w\<lparr>out := out w @ writeFields w
          [Name d, ''{'' @ Join (tags @ Tags d) '','' @ ''}'', ''gauge'', hostName,
           FormatFloat interval, Format (Unix (Timestamp d) 0) timeFormat,
           FormatFloat (Value d), Format partitionDate PartitionDateFormat]
          @ endOfRecord w\<rparr>)"
  by (simp add: EncodeInterMetricCSV_def fields_literal Write_def Error_def Let_def)

text \<open>A record none of whose fields needs quotes is written as its fields, joined.\<close>

lemma writeFields_plain:
  "list_all (\<lambda>f. \<not> fieldNeedsQuotes w f) row \<Longrightarrow> writeFields w row = Join row [Comma w]"
  by (induction w row rule: writeFields.induct) (simp_all add: writeField_def)

text \<open>A record is written as its fields, each as \<open>writeField\<close> writes it, joined.\<close>

lemma writeFields_Join:
  "writeFields w row = Join (map (writeField w) row) [Comma w]"
  by (induction w row rule: writeFields.induct) simp_all

text \<open>The loop over a quoted field replaces each byte by its escape.\<close>

lemma quoteBody_concat:
  "quoteBody crlf f
     = concat (map (\<lambda>c. if c = dquote then [dquote, dquote]
                          else if c = cr then (if crlf then [] else [cr])
                          else if c = newline then (if crlf then [cr, newline] else [newline])
                          else [c]) f)"
  by (induction f) simp_all

lemma Join_contains:
  "t \<in> set ts \<Longrightarrow> c \<in> set t \<Longrightarrow> c \<in> set (Join ts sep)"
  by (induction ts sep rule: Join.induct) auto

lemma quoteBody_plain:
  "dquote \<notin> set f \<Longrightarrow> cr \<notin> set f \<Longrightarrow> newline \<notin> set f \<Longrightarrow> quoteBody crlf f = f"
  by (induction f) auto

lemma Join_chars:
  "set (Join ts sep) \<subseteq> (\<Union>t \<in> set ts. set t) \<union> set sep"
  by (induction ts sep rule: Join.induct) auto

lemma Encode_row:
  fixes d :: "('f, 'm) InterMetric_scheme"
  assumes "Type d = CounterMetric \<or> Type d = GaugeMetric" and "validDelim (Comma w)"
  shows "snd (EncodeInterMetricCSV quo FormatFloat d w partitionDate hostName interval
             timeFormat tags)
       = w\<lparr>out := out w @ writeFields w
            [Name d,
             ''{'' @ Join (tags @ Tags d) '','' @ ''}'',
             (if Type d = CounterMetric then ''rate'' else ''gauge''),
             hostName,
             FormatFloat interval,
             Format (Unix (Timestamp d) 0) timeFormat,
             FormatFloat (if Type d = CounterMetric then quo (Value d) interval else Value d),
             Format partitionDate PartitionDateFormat]
            @ endOfRecord w\<rparr>"
  using assms by (auto simp: Encode_counter Encode_gauge)

section \<open>The encoder on a stream that may have failed\<close>

lemma Encode_io_unknown:
  "Type d = OtherMetric k \<Longrightarrow>
   EncodeInterMetricCSV_io quo FormatFloat d s partitionDate hostName interval timeFormat tags
     = (Some (UnknownMetricType (OtherMetric k)), s)"
  by (simp add: EncodeInterMetricCSV_io_def)

lemma Encode_io_written:
  "Type d = CounterMetric \<or> Type d = GaugeMetric \<Longrightarrow> validDelim (Comma (writer s)) \<Longrightarrow>
   streamErr s = None \<Longrightarrow>
   EncodeInterMetricCSV_io quo FormatFloat d s partitionDate hostName interval timeFormat tags
     = (None, s\<lparr>writer := (writer s)\<lparr>out := out (writer s) @ writeFields (writer s)
          [Name d, ''{'' @ Join (tags @ Tags d) '','' @ ''}'',
           (if Type d = CounterMetric then ''rate'' else ''gauge''), hostName,
           FormatFloat interval, Format (Unix (Timestamp d) 0) timeFormat,
           FormatFloat (if Type d = CounterMetric then quo (Value d) interval else Value d),
           Format partitionDate PartitionDateFormat]
          @ endOfRecord (writer s)\<rparr>\<rparr>)"
  by (auto simp: EncodeInterMetricCSV_io_def fields_literal Write_io_def Error_io_def Let_def)

lemma Encode_io_dropped:
  "Type d = CounterMetric \<or> Type d = GaugeMetric \<Longrightarrow>
   \<not> validDelim (Comma (writer s)) \<or> streamErr s \<noteq> None \<Longrightarrow>
   EncodeInterMetricCSV_io quo FormatFloat d s partitionDate hostName interval timeFormat tags
     = (streamErr s, s)"
  by (auto simp: EncodeInterMetricCSV_io_def fields_literal Write_io_def Error_io_def Let_def)

text \<open>On a stream that has not failed the two models of the encoder agree.\<close>

lemma Encode_io_agrees:
  fixes d :: "('f, 'm) InterMetric_scheme"
  assumes "streamErr s = None"
  shows "EncodeInterMetricCSV_io quo FormatFloat d s partitionDate hostName interval timeFormat tags
     = (fst (EncodeInterMetricCSV quo FormatFloat d (writer s) partitionDate hostName interval
               timeFormat tags),
        s\<lparr>writer := snd (EncodeInterMetricCSV quo FormatFloat d (writer s) partitionDate hostName
               interval timeFormat tags)\<rparr>)"
  using assms
  by (cases "Type d")
     (auto simp: EncodeInterMetricCSV_io_def EncodeInterMetricCSV_def fields_literal Write_io_def
        Error_io_def Write_def Error_def Let_def)

section \<open>The worked examples, evaluated\<close>

lemma exampleCounter_fields:
  "Name exampleCounter = ''a.b.c''" "Timestamp exampleCounter = 1476119058"
  "Value exampleCounter = 5" "Tags exampleCounter = [''foo:bar'', ''baz:quz'']"
  "Type exampleCounter = CounterMetric"
  by (simp_all add: exampleCounter_def)

lemma exampleGauge_fields:
  "Name exampleGauge = ''a.b.c.max''" "Timestamp exampleGauge = 1476119058"
  "Value exampleGauge = 100" "Tags exampleGauge = [''foo:bar'', ''baz:quz'']"
  "Type exampleGauge = GaugeMetric"
  by (simp_all add: exampleGauge_def)

lemma NewTabWriter_fields:
  "Comma NewTabWriter = tab" "UseCRLF NewTabWriter = False" "out NewTabWriter = []"
  by (simp_all add: NewTabWriter_def)

lemma FormatReal_half: "FormatReal (1 / 2) = ''0.5''"
  by (simp add: FormatReal_def natDigits.simps fracDigits.simps digit_def)

lemma plain_examples:
  "\<not> fieldNeedsQuotes NewTabWriter ''a.b.c''"
  "\<not> fieldNeedsQuotes NewTabWriter ''a.b.c.max''"
  "\<not> fieldNeedsQuotes NewTabWriter ''{foo:bar,baz:quz}''"
  "\<not> fieldNeedsQuotes NewTabWriter ''rate''"
  "\<not> fieldNeedsQuotes NewTabWriter ''gauge''"
  "\<not> fieldNeedsQuotes NewTabWriter ''testbox-c3eac9''"
  "\<not> fieldNeedsQuotes NewTabWriter ''10''"
  "\<not> fieldNeedsQuotes NewTabWriter ''0''"
  "\<not> fieldNeedsQuotes NewTabWriter ''100''"
  "\<not> fieldNeedsQuotes NewTabWriter ''0.5''"
  "\<not> fieldNeedsQuotes NewTabWriter ''2016-10-10 05:04:18''"
  "\<not> fieldNeedsQuotes NewTabWriter ''20161011''"
  by (simp_all add: csv_defs NewTabWriter_def byte_defs)

lemmas example_eval = exampleCounter_fields exampleGauge_fields NewTabWriter_fields
  Format_example_stamp Format_example_partition FormatReal_examples FormatReal_half
  writeField_def plain_examples endOfRecord_def

section \<open>The characters of a formatted date\<close>

lemma digit_isDigit: "d < 10 \<Longrightarrow> isDigit (digit d)"
  unfolding digit_def isDigit_def by (rule nth_mem) simp

lemma natDigits_digits: "list_all isDigit (natDigits n)"
proof (induction n rule: natDigits.induct)
  case (1 n)
  show ?case
  proof (cases "n < 10")
    case True
    then show ?thesis
      using digit_isDigit [of n] by (subst natDigits.simps) simp
  next
    case False
    have "isDigit (digit (n mod 10))"
      by (rule digit_isDigit) simp
    with False 1 show ?thesis
      by (subst natDigits.simps) simp
  qed
qed





section \<open>The calendar date of an instant\<close>

text \<open>Cutting off the cycles of 100 years and of one year leaves a day within range.\<close>

lemma cut100:
  fixes d1 :: nat
  assumes "d1 < 146097"
  defines "n100 \<equiv> d1 div 36524"
  defines "n100' \<equiv> n100 - n100 div 4"
  defines "d2 \<equiv> d1 - 36524 * n100'"
  shows "n100' \<le> 3 \<and> d2 \<le> 36524 \<and> (d2 = 36524 \<longrightarrow> n100' = 3)"
proof -
  have a: "36524 * n100 \<le> d1" "d1 < 36524 * n100 + 36524"
    unfolding n100_def by simp_all
  have le: "n100 \<le> 4" using assms(1) a by linarith
  then consider "n100 = 0" | "n100 = 1" | "n100 = 2" | "n100 = 3" | "n100 = 4"
    by atomize_elim arith
  then show ?thesis
  proof cases
    case 1 then show ?thesis using a by (simp add: n100'_def d2_def; linarith)
  next
    case 2 then show ?thesis using a by (simp add: n100'_def d2_def; linarith)
  next
    case 3 then show ?thesis using a by (simp add: n100'_def d2_def; linarith)
  next
    case 4 then show ?thesis using a by (simp add: n100'_def d2_def; linarith)
  next
    case 5 then show ?thesis using a assms(1) by (simp add: n100'_def d2_def; linarith)
  qed
qed

lemma cut1:
  fixes d3 :: nat
  assumes "d3 < 1461"
  defines "n1 \<equiv> d3 div 365"
  defines "n1' \<equiv> n1 - n1 div 4"
  defines "yday \<equiv> d3 - 365 * n1'"
  shows "n1' \<le> 3 \<and> yday \<le> 365 \<and> (yday = 365 \<longrightarrow> n1' = 3 \<and> d3 = 1460)"
proof -
  have a: "365 * n1 \<le> d3" "d3 < 365 * n1 + 365"
    unfolding n1_def by simp_all
  have le: "n1 \<le> 4" using assms(1) a by linarith
  then consider "n1 = 0" | "n1 = 1" | "n1 = 2" | "n1 = 3" | "n1 = 4"
    by atomize_elim arith
  then show ?thesis
  proof cases
    case 1 then show ?thesis using a by (simp add: n1'_def yday_def; linarith)
  next
    case 2 then show ?thesis using a by (simp add: n1'_def yday_def; linarith)
  next
    case 3 then show ?thesis using a by (simp add: n1'_def yday_def; linarith)
  next
    case 4 then show ?thesis using a by (simp add: n1'_def yday_def; linarith)
  next
    case 5 then show ?thesis using a assms(1) by (simp add: n1'_def yday_def; linarith)
  qed
qed

text \<open>The last day of a cycle of four years falls in a leap year.\<close>

lemma leap_a:
  fixes y k n :: int
  assumes "y = 100 * k + (4 * n + 4)" "0 \<le> n" "n < 24"
  shows "isLeap y"
proof -
  have "y = 4 * (25 * k + n + 1)" using assms(1) by simp
  then have 4: "y mod 4 = 0" by simp
  have "y mod 100 = (4 * n + 4) mod 100"
    unfolding assms(1) by (rule mod_mult_self4)
  also have "\<dots> = 4 * n + 4"
    using assms(2,3) by (intro mod_pos_pos_trivial) simp_all
  finally have "y mod 100 \<noteq> 0" using assms(2) by simp
  with 4 show ?thesis by (simp add: isLeap_def)
qed

lemma leap_b:
  fixes y k :: int
  assumes "y = 400 * k"
  shows "isLeap y"
proof -
  have "y = 4 * (100 * k)" using assms by simp
  then have "y mod 4 = 0" by simp
  moreover have "y mod 400 = 0" using assms by simp
  ultimately show ?thesis by (simp add: isLeap_def)
qed

text \<open>Month and day of the month, from the day of a year of 365 days.\<close>

lemma month_day_range:
  assumes "day < 365"
  shows "(if day \<ge> daysBefore ! (day div 31 + 1)
          then day div 31 + 2 \<le> 12 \<and> day - daysBefore ! (day div 31 + 1) + 1 \<le> 31
          else day - daysBefore ! (day div 31) + 1 \<le> 31)"
proof -
  define m where "m = day div 31"
  have lo: "31 * m \<le> day" and hi: "day < 31 * m + 31"
    unfolding m_def by simp_all
  have "m < 12" using assms lo by simp
  then consider "m = 0" | "m = 1" | "m = 2" | "m = 3" | "m = 4" | "m = 5" | "m = 6"
    | "m = 7" | "m = 8" | "m = 9" | "m = 10" | "m = 11"
    by atomize_elim arith
  then have "(if day \<ge> daysBefore ! (m + 1)
          then m + 2 \<le> 12 \<and> day - daysBefore ! (m + 1) + 1 \<le> 31
          else day - daysBefore ! m + 1 \<le> 31)"
    using lo hi assms by cases (simp_all add: daysBefore_def, linarith+)
  then show ?thesis unfolding m_def .
qed

lemma absDate_valid:
  assumes "absDate a = (year, month, day, yday)"
  shows "1 \<le> month \<and> month \<le> 12 \<and> 1 \<le> day \<and> day \<le> 31"
proof -
  define d where "d = a div 86400"
  define n400 where "n400 = d div 146097"
  define d1 where "d1 = d - 146097 * n400"
  define n100' where "n100' = d1 div 36524 - d1 div 36524 div 4"
  define d2 where "d2 = d1 - 36524 * n100'"
  define n4 where "n4 = d2 div 1461"
  define d3 where "d3 = d2 - 1461 * n4"
  define n1' where "n1' = d3 div 365 - d3 div 365 div 4"
  define yd where "yd = d3 - 365 * n1'"
  define y where "y = int (400 * n400 + 100 * n100' + 4 * n4 + n1') + absoluteZeroYear"
  define dy where "dy = (if isLeap y \<and> yd > 31 + 29 - 1 then yd - 1 else yd)"
  have d1: "d1 < 146097"
    unfolding d1_def n400_def by (simp add: minus_mult_div_eq_mod)
  have c100: "d2 \<le> 36524" "d2 = 36524 \<longrightarrow> n100' = 3"
    using cut100 [OF d1] unfolding n100'_def d2_def by simp_all
  have d3: "d3 < 1461" and d2: "d2 = 1461 * n4 + d3"
    unfolding d3_def n4_def by (simp_all add: minus_mult_div_eq_mod)
  have c1: "yd \<le> 365" "yd = 365 \<longrightarrow> n1' = 3 \<and> d3 = 1460"
    using cut1 [OF d3] unfolding n1'_def yd_def by simp_all
  have leap: "isLeap y" if "yd = 365"
  proof -
    from that c1 have e: "n1' = 3" "d3 = 1460" by simp_all
    have n4: "n4 \<le> 24" using c100(1) d2 e by linarith
    show ?thesis
    proof (cases "n4 = 24")
      case True
      with d2 e have "d2 = 36524" by simp
      with c100 have "n100' = 3" by simp
      with True e have "y = 400 * (int n400 - 730692555)"
        unfolding y_def absoluteZeroYear_def by simp
      then show ?thesis by (rule leap_b)
    next
      case False
      with n4 have "int n4 < 24" by simp
      moreover have "y = 100 * (4 * int n400 + int n100' - 2922770224) + (4 * int n4 + 4)"
        unfolding y_def absoluteZeroYear_def e by simp
      ultimately show ?thesis
        using leap_a [of y "4 * int n400 + int n100' - 2922770224" "int n4"] by simp
    qed
  qed
  have dy: "dy < 365"
  proof (cases "yd = 365")
    case True
    with leap show ?thesis by (simp add: dy_def)
  next
    case False
    with c1(1) show ?thesis by (simp add: dy_def) linarith
  qed
  have u: "absDate a =
     (if isLeap y \<and> yd = 31 + 29 - 1 then (y, 2, 29, yd)
      else if dy \<ge> daysBefore ! (dy div 31 + 1)
           then (y, dy div 31 + 2, dy - daysBefore ! (dy div 31 + 1) + 1, yd)
           else (y, dy div 31 + 1, dy - daysBefore ! (dy div 31) + 1, yd))"
    unfolding absDate_def Let_def dy_def y_def yd_def n1'_def d3_def n4_def d2_def n100'_def
      d1_def n400_def d_def
    by (rule refl)
  show ?thesis
  proof (cases "isLeap y \<and> yd = 31 + 29 - 1")
    case True
    with u assms show ?thesis by simp
  next
    case False
    have "dy div 31 \<le> 11" using dy by linarith
    with False u assms month_day_range [OF dy] show ?thesis
      by (auto split: if_splits)
  qed
qed

text \<open>Padding: a number below \<open>10\<^sup>k\<close> has at most \<open>k\<close> digits.\<close>

lemma natDigits_length: "0 < k \<Longrightarrow> n < 10 ^ k \<Longrightarrow> length (natDigits n) \<le> k"
proof (induction n arbitrary: k rule: natDigits.induct)
  case (1 n)
  show ?case
  proof (cases "n < 10")
    case True
    with "1.prems" show ?thesis by (subst natDigits.simps) simp
  next
    case False
    obtain j where k: "k = Suc j" using "1.prems"(1) by (cases k) auto
    have "j \<noteq> 0" using False "1.prems"(2) k by (cases j) auto
    moreover have "n div 10 < 10 ^ j"
      using "1.prems"(2) k by (simp add: less_mult_imp_div_less mult.commute)
    ultimately have "length (natDigits (n div 10)) \<le> j"
      using "1.IH" [OF False, of j] by simp
    with False k show ?thesis by (subst natDigits.simps) simp
  qed
qed

lemma appendInt_padded:
  assumes "0 \<le> x" "0 < width" "nat x < 10 ^ width"
  shows "length (appendInt x width) = width \<and> list_all isDigit (appendInt x width)"
proof -
  have l: "length (natDigits (nat \<bar>x\<bar>)) \<le> width"
    using natDigits_length [OF assms(2), of "nat x"] assms by simp
  have z: "isDigit (CHR ''0'')" by (simp add: isDigit_def)
  show ?thesis
    unfolding appendInt_def Let_def
    using assms(1) l z natDigits_digits [of "nat \<bar>x\<bar>"] by (auto simp: list_all_iff)
qed

lemma partition_is_date:
  assumes "absDate (abs_sec t) = (year, month, day, yday)"
  shows "Format t PartitionDateFormat
           = appendInt year 4 @ appendInt (int month) 2 @ appendInt (int day) 2
         \<and> 1 \<le> month \<and> month \<le> 12 \<and> 1 \<le> day \<and> day \<le> 31
         \<and> length (appendInt (int month) 2) = 2 \<and> length (appendInt (int day) 2) = 2
         \<and> (0 \<le> year \<and> year \<le> 9999 \<longrightarrow>
              length (Format t PartitionDateFormat) = 8
              \<and> list_all isDigit (Format t PartitionDateFormat))"
proof -
  have f: "Format t PartitionDateFormat
           = appendInt year 4 @ appendInt (int month) 2 @ appendInt (int day) 2"
    by (simp add: Format_partition assms)
  have v: "1 \<le> month" "month \<le> 12" "1 \<le> day" "day \<le> 31"
    using absDate_valid [OF assms] by simp_all
  have m: "length (appendInt (int month) 2) = 2 \<and> list_all isDigit (appendInt (int month) 2)"
    using v by (intro appendInt_padded) simp_all
  have d: "length (appendInt (int day) 2) = 2 \<and> list_all isDigit (appendInt (int day) 2)"
    using v by (intro appendInt_padded) simp_all
  have y: "length (appendInt year 4) = 4 \<and> list_all isDigit (appendInt year 4)"
    if "0 \<le> year" "year \<le> 9999"
    using that by (intro appendInt_padded) simp_all
  show ?thesis
    using f v m d y by simp
qed

lemma tabTagCounter_fields:
  "Name tabTagCounter = ''a.b.c.max''" "Timestamp tabTagCounter = 1476119058"
  "Value tabTagCounter = 1000" "Tags tabTagCounter = [''foo:b'' @ [tab] @ ''ar'', ''baz:quz'']"
  "Type tabTagCounter = CounterMetric"
  by (simp_all add: tabTagCounter_def)

lemma quotedTagGauge_fields:
  "Name quotedTagGauge = ''a.b.c.max''" "Timestamp quotedTagGauge = 1476119058"
  "Value quotedTagGauge = 100"
  "Tags quotedTagGauge = [''msg:say '' @ [dquote] @ ''hi'' @ [dquote]]"
  "Type quotedTagGauge = GaugeMetric"
  by (simp_all add: quotedTagGauge_def)

lemma lineBreakGauge_fields:
  "Name lineBreakGauge = '' a.b.c''" "Timestamp lineBreakGauge = 1476119058"
  "Value lineBreakGauge = 100" "Tags lineBreakGauge = [''note:one'' @ [newline] @ ''two'']"
  "Type lineBreakGauge = GaugeMetric"
  by (simp_all add: lineBreakGauge_def)






section \<open>Sequences of samples\<close>

lemma Counter_Samples_sum:
  "Counter_Samples c samples = c\<lparr>counterSum := counterSum c + (\<Sum>(v, r) \<leftarrow> samples. v / r)\<rparr>"
  unfolding Counter_Samples_def
  by (induction samples arbitrary: c) (auto simp: Counter_Sample_def algebra_simps)

lemma Gauge_Samples_cases:
  "Gauge_Samples g samples
     = (if samples = [] then g else g\<lparr>gaugeLast := fst (last samples)\<rparr>)"
  unfolding Gauge_Samples_def
  by (induction samples rule: rev_induct) (auto simp: Gauge_Sample_def)

lemma Gauge_Samples_last:
  "samples \<noteq> [] \<Longrightarrow> Gauge_Samples g samples = g\<lparr>gaugeLast := fst (last samples)\<rparr>"
  by (simp add: Gauge_Samples_cases)

section \<open>Claims about the CSV encoder\<close>

text \<open>
  \<^bold>\<open>C5.\<close> When \<^verbatim>\<open>EncodeInterMetricCSV\<close> encodes a counter, the row it writes has
  \<^verbatim>\<open>rate\<close> in the MetricType column and, in the Value column, the metric's value divided
  by the interval argument; for a gauge the row has \<^verbatim>\<open>gauge\<close> and the value as it is.
  The writer's delimiter is taken to be a valid one, as the function's comment asks of
  the caller. Columns 2 and 6 of the schema are MetricType and Value.
\<close>

theorem C5_counter_rows_are_rates:
  fixes d :: "('f, 'm) InterMetric_scheme"
  assumes "validDelim (Comma w)"
  shows
  "(Type d = CounterMetric \<longrightarrow>
      EncodeInterMetricCSV quo FormatFloat d w partitionDate hostName interval timeFormat tags
        = (None, w\<lparr>out := out w @ writeFields w
             [Name d, ''{'' @ Join (tags @ Tags d) '','' @ ''}'', ''rate'', hostName,
              FormatFloat interval, Format (Unix (Timestamp d) 0) timeFormat,
              FormatFloat (quo (Value d) interval), Format partitionDate PartitionDateFormat]
             @ endOfRecord w\<rparr>))
   \<and> (Type d = GaugeMetric \<longrightarrow>
      EncodeInterMetricCSV quo FormatFloat d w partitionDate hostName interval timeFormat tags
        = (None, w\<lparr>out := out w @ writeFields w
             [Name d, ''{'' @ Join (tags @ Tags d) '','' @ ''}'', ''gauge'', hostName,
              FormatFloat interval, Format (Unix (Timestamp d) 0) timeFormat,
              FormatFloat (Value d), Format partitionDate PartitionDateFormat]
             @ endOfRecord w\<rparr>))
   \<and> tsvSchema ! 2 = ''MetricType'' \<and> tsvSchema ! 6 = ''Value''"
  using assms by (simp add: Encode_counter Encode_gauge tsvSchema_columns)

text \<open>
  The example counter (value 5) over an interval of 10 is written as a rate of 0.5, the
  example gauge (value 100) as it is.
\<close>

theorem C5_witness:
  "validDelim (Comma NewTabWriter)
   \<and> EncodeInterMetricCSV (/) FormatReal exampleCounter NewTabWriter
        (Unix 1476144000 0) ''testbox-c3eac9'' 10 ''2006-01-02 03:04:05'' []
      = (None, NewTabWriter\<lparr>out :=
           Join [''a.b.c'', ''{foo:bar,baz:quz}'', ''rate'', ''testbox-c3eac9'', ''10'',
                 ''2016-10-10 05:04:18'', ''0.5'', ''20161011''] [tab] @ [newline]\<rparr>)
   \<and> EncodeInterMetricCSV (/) FormatReal exampleGauge NewTabWriter
        (Unix 1476144000 0) ''testbox-c3eac9'' 10 ''2006-01-02 03:04:05'' []
      = (None, NewTabWriter\<lparr>out :=
           Join [''a.b.c.max'', ''{foo:bar,baz:quz}'', ''gauge'', ''testbox-c3eac9'', ''10'',
                 ''2016-10-10 05:04:18'', ''100'', ''20161011''] [tab] @ [newline]\<rparr>)"
proof -
  have v: "validDelim (Comma NewTabWriter)"
    by (simp add: NewTabWriter_def validDelim_tab)
  note inst = C5_counter_rows_are_rates [OF v, where quo = "(/)" and FormatFloat = FormatReal
      and partitionDate = "Unix 1476144000 0" and hostName = "''testbox-c3eac9''"
      and interval = 10 and timeFormat = "''2006-01-02 03:04:05''" and tags = "[]"]
  show ?thesis
    using v inst [of exampleCounter] inst [of exampleGauge]
    by (simp add: example_eval)
qed

text \<open>
  \<^bold>\<open>C6.\<close> The row that \<^verbatim>\<open>EncodeInterMetricCSV\<close> writes for a counter or a gauge
  has its fields in the order of the schema: Name, Tags, MetricType, VeneurHostname,
  Interval, Timestamp, Value, Partition. The Tags field is the tags handed to the encoder
  (the common \<^verbatim>\<open>tags\<close>, then the metric's own) joined by commas inside braces. The
  Partition field is the UTC date of \<^verbatim>\<open>partitionDate\<close> as year, month and day: the
  month lies between 1 and 12 and the day between 1 and 31, each written with two digits,
  and for a year from 0 to 9999 the field is eight decimal digits, \<^verbatim>\<open>YYYYMMDD\<close>.
\<close>

theorem C6_row_follows_schema:
  fixes d :: "('f, 'm) InterMetric_scheme"
  assumes "Type d = CounterMetric \<or> Type d = GaugeMetric" and "validDelim (Comma w)"
    and "absDate (abs_sec partitionDate) = (year, month, day, yday)"
  shows
  "tsvSchema = [''Name'', ''Tags'', ''MetricType'', ''VeneurHostname'', ''Interval'',
                ''Timestamp'', ''Value'', ''Partition'']
   \<and> snd (EncodeInterMetricCSV quo FormatFloat d w partitionDate hostName interval
             timeFormat tags)
       = w\<lparr>out := out w @ writeFields w
            [Name d,
             ''{'' @ Join (tags @ Tags d) '','' @ ''}'',
             (if Type d = CounterMetric then ''rate'' else ''gauge''),
             hostName,
             FormatFloat interval,
             Format (Unix (Timestamp d) 0) timeFormat,
             FormatFloat (if Type d = CounterMetric then quo (Value d) interval else Value d),
             appendInt year 4 @ appendInt (int month) 2 @ appendInt (int day) 2]
            @ endOfRecord w\<rparr>
   \<and> 1 \<le> month \<and> month \<le> 12 \<and> 1 \<le> day \<and> day \<le> 31
   \<and> length (appendInt (int month) 2) = 2 \<and> length (appendInt (int day) 2) = 2
   \<and> (0 \<le> year \<and> year \<le> 9999 \<longrightarrow>
        length (appendInt year 4 @ appendInt (int month) 2 @ appendInt (int day) 2) = 8
        \<and> list_all isDigit (appendInt year 4 @ appendInt (int month) 2 @ appendInt (int day) 2))"
proof -
  note p = partition_is_date [OF assms(3)]
  from p have f: "Format partitionDate PartitionDateFormat
           = appendInt year 4 @ appendInt (int month) 2 @ appendInt (int day) 2"
    by (rule conjunct1)
  have s: "tsvSchema = [''Name'', ''Tags'', ''MetricType'', ''VeneurHostname'', ''Interval'',
                ''Timestamp'', ''Value'', ''Partition'']"
    by (rule tsvSchema_columns)
  note r = Encode_row [OF assms(1,2), of quo FormatFloat partitionDate hostName interval
        timeFormat tags, unfolded f]
  note v = p [unfolded f, THEN conjunct2]
  show ?thesis
    by (rule conjI [OF s conjI [OF r v]])
qed

text \<open>
  The example gauge with one common tag, partitioned on 2016-10-11 (Unix time 1476144000).
\<close>

theorem C6_witness:
  "(Type exampleGauge = CounterMetric \<or> Type exampleGauge = GaugeMetric)
   \<and> validDelim (Comma NewTabWriter)
   \<and> absDate (abs_sec (Unix 1476144000 0)) = (2016, 10, 11, 284)
   \<and> 0 \<le> (2016 :: int) \<and> (2016 :: int) \<le> 9999
   \<and> snd (EncodeInterMetricCSV (/) FormatReal exampleGauge NewTabWriter
            (Unix 1476144000 0) ''testbox-c3eac9'' 10 ''2006-01-02 03:04:05'' [''env:prod''])
      = NewTabWriter\<lparr>out :=
           Join [''a.b.c.max'', ''{env:prod,foo:bar,baz:quz}'', ''gauge'', ''testbox-c3eac9'',
                 ''10'', ''2016-10-10 05:04:18'', ''100'', ''20161011''] [tab] @ [newline]\<rparr>
   \<and> length ''20161011'' = 8 \<and> list_all isDigit ''20161011''"
proof -
  have t: "Type exampleGauge = CounterMetric \<or> Type exampleGauge = GaugeMetric"
    by (simp add: exampleGauge_fields)
  have v: "validDelim (Comma NewTabWriter)"
    by (simp add: NewTabWriter_fields validDelim_tab)
  have p: "absDate (abs_sec (Unix 1476144000 0)) = (2016, 10, 11, 284)"
    by (simp add: time_defs cong: let_weak_cong)
  have a: "appendInt 2016 4 = ''2016''" "appendInt 10 2 = ''10''" "appendInt 11 2 = ''11''"
    by (simp_all add: appendInt_def natDigits.simps digit_def)
  have q: "\<not> fieldNeedsQuotes NewTabWriter ''{env:prod,foo:bar,baz:quz}''"
    by (simp add: csv_defs NewTabWriter_def byte_defs)
  show ?thesis
    using t v p C6_row_follows_schema [OF t v p, where quo = "(/)" and FormatFloat = FormatReal
      and hostName = "''testbox-c3eac9''"
      and interval = 10 and timeFormat = "''2006-01-02 03:04:05''" and tags = "[''env:prod'']"]
    by (simp add: example_eval a q)
qed

text \<open>
  \<^bold>\<open>C7,\<close> as amended. With the tab as delimiter, the row of a counter or a gauge is
  its eight fields, each written as follows, joined by tabs and ended by the end of line.
  A field is written between double quotes exactly when it is not empty and holds a tab,
  a double quote, a CR or an LF, starts with white space, or is \<^verbatim>\<open>\.\<close>; between the
  quotes every double quote is doubled, and CR and LF are written as \<^verbatim>\<open>UseCRLF\<close> says
  (kept, or CR dropped and LF written as CR LF). Every other field is written as it is.
  So when any tag contains a tab the Tags field is written quoted (and with no double
  quote, CR or LF in the tags, the field itself stands between the quotes), and a row
  none of whose fields needs quotes is written as the fields joined by tabs. Quoting is
  not confined to tabs.
\<close>

theorem C7_tab_in_a_tag_quotes_the_tags_field:
  fixes d :: "('f, 'm) InterMetric_scheme" and quo :: "'f \<Rightarrow> 'f \<Rightarrow> 'f"
    and FormatFloat :: "'f \<Rightarrow> string" and w :: Writer and partitionDate :: Time
    and hostName timeFormat :: string and interval :: 'f and tags :: "string list"
  defines "jsonTags \<equiv> ''{'' @ Join (tags @ Tags d) '','' @ ''}''"
  defines "others \<equiv>
     [if Type d = CounterMetric then ''rate'' else ''gauge'', hostName, FormatFloat interval,
      Format (Unix (Timestamp d) 0) timeFormat,
      FormatFloat (if Type d = CounterMetric then quo (Value d) interval else Value d),
      Format partitionDate PartitionDateFormat]"
  defines "w' \<equiv> snd (EncodeInterMetricCSV quo FormatFloat d w partitionDate hostName interval
                        timeFormat tags)"
  defines "quoted \<equiv> \<lambda>f. f \<noteq> [] \<and> (f = [backslash, CHR ''.''] \<or> tab \<in> set f \<or> dquote \<in> set f
                              \<or> cr \<in> set f \<or> newline \<in> set f \<or> startsWithSpace f)"
  defines "escaped \<equiv> \<lambda>f. concat (map (\<lambda>c.
                 if c = dquote then [dquote, dquote]
                 else if c = cr then (if UseCRLF w then [] else [cr])
                 else if c = newline then (if UseCRLF w then [cr, newline] else [newline])
                 else [c]) f)"
  defines "written \<equiv> \<lambda>f. if quoted f then [dquote] @ escaped f @ [dquote] else f"
  assumes "Type d = CounterMetric \<or> Type d = GaugeMetric" and "Comma w = tab"
  shows
  "out w' = out w @ Join (map written (Name d # jsonTags # others)) [tab]
              @ (if UseCRLF w then [cr, newline] else [newline])
   \<and> ((\<exists>t \<in> set (tags @ Tags d). tab \<in> set t) \<longrightarrow>
      out w' = out w @ writeField w (Name d) @ [tab]
                 @ [dquote] @ quoteBody (UseCRLF w) jsonTags @ [dquote] @ [tab]
                 @ writeFields w others @ endOfRecord w)
   \<and> (list_all (\<lambda>t. dquote \<notin> set t \<and> cr \<notin> set t \<and> newline \<notin> set t) (tags @ Tags d) \<longrightarrow>
        quoteBody (UseCRLF w) jsonTags = jsonTags)
   \<and> (\<forall>f. writeField w f = written f)
   \<and> (\<forall>f. quoteBody (UseCRLF w) f = escaped f)
   \<and> (\<forall>row. writeFields w row = Join (map written row) [tab])
   \<and> (\<forall>f. fieldNeedsQuotes w f \<longleftrightarrow> quoted f)
   \<and> (list_all (\<lambda>f. \<not> fieldNeedsQuotes w f) (Name d # jsonTags # others) \<longrightarrow>
        out w' = out w @ Join (Name d # jsonTags # others) [tab] @ endOfRecord w)"
proof -
  have v: "validDelim (Comma w)"
    using assms by (simp add: validDelim_tab)
  have row: "w' = w\<lparr>out := out w @ writeFields w (Name d # jsonTags # others) @ endOfRecord w\<rparr>"
    unfolding w'_def jsonTags_def others_def
    using Encode_row [OF assms(7) v] by simp
  have 4: "\<forall>f. fieldNeedsQuotes w f \<longleftrightarrow> quoted f"
    unfolding quoted_def using assms(8) by (auto simp: fieldNeedsQuotes_def)
  have e: "\<forall>f. quoteBody (UseCRLF w) f = escaped f"
    unfolding escaped_def by (simp add: quoteBody_concat)
  have wf: "\<forall>f. writeField w f = written f"
    unfolding written_def by (simp add: writeField_def 4 e)
  then have wf': "writeField w = written"
    by (simp add: fun_eq_iff)
  have wfs: "\<forall>row. writeFields w row = Join (map written row) [tab]"
    by (simp add: writeFields_Join wf' assms(8))
  have 0: "out w' = out w @ Join (map written (Name d # jsonTags # others)) [tab]
              @ (if UseCRLF w then [cr, newline] else [newline])"
    unfolding row endOfRecord_def wfs [rule_format] by simp
  have 1: "out w' = out w @ writeField w (Name d) @ [tab]
                 @ [dquote] @ quoteBody (UseCRLF w) jsonTags @ [dquote] @ [tab]
                 @ writeFields w others @ endOfRecord w"
    if "\<exists>t \<in> set (tags @ Tags d). tab \<in> set t"
  proof -
    from that obtain t where "t \<in> set (tags @ Tags d)" "tab \<in> set t" by blast
    then have "tab \<in> set (Join (tags @ Tags d) '','')" by (rule Join_contains)
    then have "fieldNeedsQuotes w jsonTags"
      using assms(8) by (simp add: fieldNeedsQuotes_def jsonTags_def)
    then show ?thesis
      using assms(8) by (simp add: row writeField_def others_def)
  qed
  have 2: "quoteBody (UseCRLF w) jsonTags = jsonTags"
    if "list_all (\<lambda>t. dquote \<notin> set t \<and> cr \<notin> set t \<and> newline \<notin> set t) (tags @ Tags d)"
  proof (rule quoteBody_plain)
    have sub: "set jsonTags \<subseteq> (\<Union>t \<in> set (tags @ Tags d). set t) \<union> set '','' \<union> set ''{}''"
      using Join_chars [of "tags @ Tags d" "'',''"] by (auto simp: jsonTags_def)
    from that have no: "\<And>t. t \<in> set (tags @ Tags d) \<Longrightarrow>
        dquote \<notin> set t \<and> cr \<notin> set t \<and> newline \<notin> set t"
      by (simp add: list_all_iff)
    show "dquote \<notin> set jsonTags" using sub no by (auto simp: byte_defs)
    show "cr \<notin> set jsonTags" using sub no by (auto simp: byte_defs)
    show "newline \<notin> set jsonTags" using sub no by (auto simp: byte_defs)
  qed
  have 5: "out w' = out w @ Join (Name d # jsonTags # others) [tab] @ endOfRecord w"
    if "list_all (\<lambda>f. \<not> fieldNeedsQuotes w f) (Name d # jsonTags # others)"
    using writeFields_plain [OF that] assms(8) by (simp add: row)
  from 0 1 2 wf e wfs 4 5 show ?thesis by blast
qed

text \<open>
  The \<^verbatim>\<open>TabTag\<close> counter: only its Tags field is quoted. A gauge without any tab or
  double quote, whose name starts with a space and whose tag holds a line feed: both
  fields are quoted. The example gauge: no field is quoted.
\<close>

theorem C7_witness:
  "(Type tabTagCounter = CounterMetric \<or> Type tabTagCounter = GaugeMetric)
   \<and> Comma NewTabWriter = tab
   \<and> tab \<in> set (hd (Tags tabTagCounter))
   \<and> out (snd (EncodeInterMetricCSV (/) FormatReal tabTagCounter NewTabWriter
                 (Unix 1476144000 0) ''testbox-c3eac9'' 10 ''2006-01-02 03:04:05'' []))
      = Join [''a.b.c.max'', [dquote] @ ''{foo:b'' @ [tab] @ ''ar,baz:quz}'' @ [dquote],
              ''rate'', ''testbox-c3eac9'', ''10'', ''2016-10-10 05:04:18'', ''100'',
              ''20161011''] [tab] @ [newline]
   \<and> (Type lineBreakGauge = CounterMetric \<or> Type lineBreakGauge = GaugeMetric)
   \<and> out (snd (EncodeInterMetricCSV (/) FormatReal lineBreakGauge NewTabWriter
                 (Unix 1476144000 0) ''testbox-c3eac9'' 10 ''2006-01-02 03:04:05'' []))
      = Join [[dquote] @ '' a.b.c'' @ [dquote],
              [dquote] @ ''{note:one'' @ [newline] @ ''two}'' @ [dquote],
              ''gauge'', ''testbox-c3eac9'', ''10'', ''2016-10-10 05:04:18'', ''100'',
              ''20161011''] [tab] @ [newline]
   \<and> (Type exampleGauge = CounterMetric \<or> Type exampleGauge = GaugeMetric)
   \<and> list_all (\<lambda>f. \<not> fieldNeedsQuotes NewTabWriter f)
        [''a.b.c.max'', ''{foo:bar,baz:quz}'', ''gauge'', ''testbox-c3eac9'', ''10'',
         ''2016-10-10 05:04:18'', ''100'', ''20161011'']
   \<and> out (snd (EncodeInterMetricCSV (/) FormatReal exampleGauge NewTabWriter
                 (Unix 1476144000 0) ''testbox-c3eac9'' 10 ''2006-01-02 03:04:05'' []))
      = Join [''a.b.c.max'', ''{foo:bar,baz:quz}'', ''gauge'', ''testbox-c3eac9'', ''10'',
              ''2016-10-10 05:04:18'', ''100'', ''20161011''] [tab] @ [newline]"
proof -
  have t: "Type tabTagCounter = CounterMetric \<or> Type tabTagCounter = GaugeMetric"
    by (simp add: tabTagCounter_fields)
  have l: "Type lineBreakGauge = CounterMetric \<or> Type lineBreakGauge = GaugeMetric"
    by (simp add: lineBreakGauge_fields)
  have g: "Type exampleGauge = CounterMetric \<or> Type exampleGauge = GaugeMetric"
    by (simp add: exampleGauge_fields)
  have c: "Comma NewTabWriter = tab"
    by (simp add: NewTabWriter_fields)
  have h: "tab \<in> set (hd (Tags tabTagCounter))"
    by (simp add: tabTagCounter_fields)
  have e: "\<exists>t \<in> set ([] @ Tags tabTagCounter). tab \<in> set t"
    by (simp add: tabTagCounter_fields)
  have p: "list_all (\<lambda>f. \<not> fieldNeedsQuotes NewTabWriter f)
        [''a.b.c.max'', ''{foo:bar,baz:quz}'', ''gauge'', ''testbox-c3eac9'', ''10'',
         ''2016-10-10 05:04:18'', ''100'', ''20161011'']"
    by (simp add: plain_examples)
  have 1: "out (snd (EncodeInterMetricCSV (/) FormatReal tabTagCounter NewTabWriter
                 (Unix 1476144000 0) ''testbox-c3eac9'' 10 ''2006-01-02 03:04:05'' []))
      = Join [''a.b.c.max'', [dquote] @ ''{foo:b'' @ [tab] @ ''ar,baz:quz}'' @ [dquote],
              ''rate'', ''testbox-c3eac9'', ''10'', ''2016-10-10 05:04:18'', ''100'',
              ''20161011''] [tab] @ [newline]"
    using e C7_tab_in_a_tag_quotes_the_tags_field [OF t c, where quo = "(/)"
      and FormatFloat = FormatReal and partitionDate = "Unix 1476144000 0"
      and hostName = "''testbox-c3eac9''" and interval = 10
      and timeFormat = "''2006-01-02 03:04:05''" and tags = "[]",
      THEN conjunct2, THEN conjunct1]
    by (simp add: example_eval tabTagCounter_fields byte_defs)
  have 2: "out (snd (EncodeInterMetricCSV (/) FormatReal lineBreakGauge NewTabWriter
                 (Unix 1476144000 0) ''testbox-c3eac9'' 10 ''2006-01-02 03:04:05'' []))
      = Join [[dquote] @ '' a.b.c'' @ [dquote],
              [dquote] @ ''{note:one'' @ [newline] @ ''two}'' @ [dquote],
              ''gauge'', ''testbox-c3eac9'', ''10'', ''2016-10-10 05:04:18'', ''100'',
              ''20161011''] [tab] @ [newline]"
    using C7_tab_in_a_tag_quotes_the_tags_field [OF l c, where quo = "(/)"
      and FormatFloat = FormatReal and partitionDate = "Unix 1476144000 0"
      and hostName = "''testbox-c3eac9''" and interval = 10
      and timeFormat = "''2006-01-02 03:04:05''" and tags = "[]", THEN conjunct1]
    by (simp add: example_eval lineBreakGauge_fields byte_defs startsWithSpace_def
        spaceRunes_def HasPrefix_def)
  have 3: "out (snd (EncodeInterMetricCSV (/) FormatReal exampleGauge NewTabWriter
                 (Unix 1476144000 0) ''testbox-c3eac9'' 10 ''2006-01-02 03:04:05'' []))
      = Join [''a.b.c.max'', ''{foo:bar,baz:quz}'', ''gauge'', ''testbox-c3eac9'', ''10'',
              ''2016-10-10 05:04:18'', ''100'', ''20161011''] [tab] @ [newline]"
    using p C7_tab_in_a_tag_quotes_the_tags_field [OF g c, where quo = "(/)"
      and FormatFloat = FormatReal and partitionDate = "Unix 1476144000 0"
      and hostName = "''testbox-c3eac9''" and interval = 10
      and timeFormat = "''2006-01-02 03:04:05''" and tags = "[]",
      THEN conjunct2, THEN conjunct2, THEN conjunct2, THEN conjunct2, THEN conjunct2,
      THEN conjunct2, THEN conjunct2]
    by (simp add: example_eval)
  from t c h 1 l 2 g p 3 show ?thesis by blast
qed

text \<open>
  The claim as stated fails: no field of the gauge below holds a tab, yet its Tags field
  holds double quotes and is therefore written quoted, its quotes doubled.
\<close>

theorem C7_counterexample:
  "list_all (\<lambda>f. tab \<notin> set f)
     [''a.b.c.max'', ''{msg:say '' @ [dquote] @ ''hi'' @ [dquote] @ ''}'', ''gauge'',
      ''testbox-c3eac9'', ''10'', ''2016-10-10 05:04:18'', ''100'', ''20161011'']
   \<and> out (snd (EncodeInterMetricCSV (/) FormatReal quotedTagGauge NewTabWriter
                 (Unix 1476144000 0) ''testbox-c3eac9'' 10 ''2006-01-02 03:04:05'' []))
      = Join [''a.b.c.max'',
              [dquote] @ ''{msg:say '' @ [dquote, dquote] @ ''hi'' @ [dquote, dquote] @ ''}''
                @ [dquote],
              ''gauge'', ''testbox-c3eac9'', ''10'', ''2016-10-10 05:04:18'', ''100'',
              ''20161011''] [tab] @ [newline]
   \<and> out (snd (EncodeInterMetricCSV (/) FormatReal quotedTagGauge NewTabWriter
                 (Unix 1476144000 0) ''testbox-c3eac9'' 10 ''2006-01-02 03:04:05'' []))
      \<noteq> Join [''a.b.c.max'', ''{msg:say '' @ [dquote] @ ''hi'' @ [dquote] @ ''}'', ''gauge'',
              ''testbox-c3eac9'', ''10'', ''2016-10-10 05:04:18'', ''100'', ''20161011'']
           [tab] @ [newline]"
proof -
  have t: "Type quotedTagGauge = CounterMetric \<or> Type quotedTagGauge = GaugeMetric"
    by (simp add: quotedTagGauge_fields)
  have v: "validDelim (Comma NewTabWriter)"
    by (simp add: NewTabWriter_fields validDelim_tab)
  show ?thesis
    unfolding Encode_row [OF t v]
    by (simp add: example_eval quotedTagGauge_fields byte_defs csv_defs)
qed

text \<open>
  \<^bold>\<open>C10,\<close> as amended. For a metric whose type is neither counter nor gauge,
  \<^verbatim>\<open>EncodeInterMetricCSV\<close> returns an error and leaves the writer as it was: no row is
  written, whatever the state of the writer. For a counter or a gauge it returns no error
  and the output grows by exactly one record, of eight fields, when the writer's
  delimiter is valid and its stream has not failed. When the delimiter is NUL, a double
  quote, CR or LF, or when the stream has failed, nothing is written and the function
  returns the stream's error, which is \<^verbatim>\<open>nil\<close> for a stream that has not failed: the
  error of \<^verbatim>\<open>w.Write\<close> is dropped.
\<close>

theorem C10_errors_and_rows:
  fixes d :: "('f, 'm) InterMetric_scheme"
  shows
  "(Type d \<noteq> CounterMetric \<and> Type d \<noteq> GaugeMetric \<longrightarrow>
      EncodeInterMetricCSV_io quo FormatFloat d s partitionDate hostName interval timeFormat tags
        = (Some (UnknownMetricType (Type d)), s))
   \<and> ((Type d = CounterMetric \<or> Type d = GaugeMetric)
        \<and> validDelim (Comma (writer s)) \<and> streamErr s = None \<longrightarrow>
      EncodeInterMetricCSV_io quo FormatFloat d s partitionDate hostName interval timeFormat tags
        = (None, s\<lparr>writer := (writer s)\<lparr>out := out (writer s)
             @ writeFields (writer s)
                 [Name d, ''{'' @ Join (tags @ Tags d) '','' @ ''}'',
                  (if Type d = CounterMetric then ''rate'' else ''gauge''), hostName,
                  FormatFloat interval, Format (Unix (Timestamp d) 0) timeFormat,
                  FormatFloat (if Type d = CounterMetric then quo (Value d) interval
                               else Value d),
                  Format partitionDate PartitionDateFormat]
             @ endOfRecord (writer s)\<rparr>\<rparr>))
   \<and> ((Type d = CounterMetric \<or> Type d = GaugeMetric)
        \<and> (Comma (writer s) = CHR 0x00 \<or> Comma (writer s) = dquote \<or> Comma (writer s) = cr
             \<or> Comma (writer s) = newline \<or> streamErr s \<noteq> None) \<longrightarrow>
      EncodeInterMetricCSV_io quo FormatFloat d s partitionDate hostName interval timeFormat tags
        = (streamErr s, s))"
proof (intro conjI impI)
  assume "Type d \<noteq> CounterMetric \<and> Type d \<noteq> GaugeMetric"
  then obtain k where "Type d = OtherMetric k"
    by (cases "Type d") simp_all
  then show "EncodeInterMetricCSV_io quo FormatFloat d s partitionDate hostName interval
               timeFormat tags = (Some (UnknownMetricType (Type d)), s)"
    by (simp add: Encode_io_unknown)
next
  assume a: "(Type d = CounterMetric \<or> Type d = GaugeMetric)
        \<and> validDelim (Comma (writer s)) \<and> streamErr s = None"
  then show "EncodeInterMetricCSV_io quo FormatFloat d s partitionDate hostName interval
      timeFormat tags
        = (None, s\<lparr>writer := (writer s)\<lparr>out := out (writer s)
             @ writeFields (writer s)
                 [Name d, ''{'' @ Join (tags @ Tags d) '','' @ ''}'',
                  (if Type d = CounterMetric then ''rate'' else ''gauge''), hostName,
                  FormatFloat interval, Format (Unix (Timestamp d) 0) timeFormat,
                  FormatFloat (if Type d = CounterMetric then quo (Value d) interval
                               else Value d),
                  Format partitionDate PartitionDateFormat]
             @ endOfRecord (writer s)\<rparr>\<rparr>)"
    by (intro Encode_io_written) simp_all
next
  assume a: "(Type d = CounterMetric \<or> Type d = GaugeMetric)
        \<and> (Comma (writer s) = CHR 0x00 \<or> Comma (writer s) = dquote \<or> Comma (writer s) = cr
             \<or> Comma (writer s) = newline \<or> streamErr s \<noteq> None)"
  then have "\<not> validDelim (Comma (writer s)) \<or> streamErr s \<noteq> None"
    by (auto simp: validDelim_def)
  with a show "EncodeInterMetricCSV_io quo FormatFloat d s partitionDate hostName interval
      timeFormat tags = (streamErr s, s)"
    by (intro Encode_io_dropped) simp_all
qed

text \<open>
  On the tab writer over a sound stream, the example gauge with its type changed to
  another one is refused and nothing is written, and the example gauge itself is written
  as one record ending in a newline; with a line feed as delimiter, or on a stream that
  has failed with \<^verbatim>\<open>disk full\<close>, the example gauge is not written.
\<close>

theorem C10_witness:
  "EncodeInterMetricCSV_io (/) FormatReal (exampleGauge\<lparr>Type := OtherMetric 2\<rparr>)
       \<lparr>writer = NewTabWriter, streamErr = None\<rparr>
       (Unix 1476144000 0) ''testbox-c3eac9'' 10 ''2006-01-02 03:04:05'' []
     = (Some (UnknownMetricType (OtherMetric 2)), \<lparr>writer = NewTabWriter, streamErr = None\<rparr>)
   \<and> Type exampleGauge = GaugeMetric \<and> validDelim (Comma NewTabWriter)
   \<and> EncodeInterMetricCSV_io (/) FormatReal exampleGauge
         \<lparr>writer = NewTabWriter, streamErr = None\<rparr>
         (Unix 1476144000 0) ''testbox-c3eac9'' 10 ''2006-01-02 03:04:05'' []
       = (None, \<lparr>writer = NewTabWriter\<lparr>out :=
                   Join [''a.b.c.max'', ''{foo:bar,baz:quz}'', ''gauge'', ''testbox-c3eac9'',
                         ''10'', ''2016-10-10 05:04:18'', ''100'', ''20161011''] [tab]
                   @ [newline]\<rparr>,
                 streamErr = None\<rparr>)
   \<and> EncodeInterMetricCSV_io (/) FormatReal exampleGauge
         \<lparr>writer = NewTabWriter\<lparr>Comma := newline\<rparr>, streamErr = None\<rparr>
         (Unix 1476144000 0) ''testbox-c3eac9'' 10 ''2006-01-02 03:04:05'' []
       = (None, \<lparr>writer = NewTabWriter\<lparr>Comma := newline\<rparr>, streamErr = None\<rparr>)
   \<and> EncodeInterMetricCSV_io (/) FormatReal exampleGauge
         \<lparr>writer = NewTabWriter, streamErr = Some (StreamError ''disk full'')\<rparr>
         (Unix 1476144000 0) ''testbox-c3eac9'' 10 ''2006-01-02 03:04:05'' []
       = (Some (StreamError ''disk full''),
          \<lparr>writer = NewTabWriter, streamErr = Some (StreamError ''disk full'')\<rparr>)"
  using
    C10_errors_and_rows [of "exampleGauge\<lparr>Type := OtherMetric 2\<rparr>" "(/)" FormatReal
      "\<lparr>writer = NewTabWriter, streamErr = None\<rparr>"
      "Unix 1476144000 0" "''testbox-c3eac9''" 10 "''2006-01-02 03:04:05''" "[]"]
    C10_errors_and_rows [of exampleGauge "(/)" FormatReal
      "\<lparr>writer = NewTabWriter, streamErr = None\<rparr>"
      "Unix 1476144000 0" "''testbox-c3eac9''" 10 "''2006-01-02 03:04:05''" "[]"]
    C10_errors_and_rows [of exampleGauge "(/)" FormatReal
      "\<lparr>writer = NewTabWriter\<lparr>Comma := newline\<rparr>, streamErr = None\<rparr>"
      "Unix 1476144000 0" "''testbox-c3eac9''" 10 "''2006-01-02 03:04:05''" "[]"]
    C10_errors_and_rows [of exampleGauge "(/)" FormatReal
      "\<lparr>writer = NewTabWriter, streamErr = Some (StreamError ''disk full'')\<rparr>"
      "Unix 1476144000 0" "''testbox-c3eac9''" 10 "''2006-01-02 03:04:05''" "[]"]
  by (simp add: example_eval validDelim_tab)

text \<open>
  The claim as stated fails: with a double quote as delimiter the example gauge, a
  gauge, is not written and no error is returned (in either model of the writer), and on
  a stream that has failed it is not written either.
\<close>

theorem C10_counterexample:
  "Type exampleGauge = GaugeMetric
   \<and> EncodeInterMetricCSV_io (/) FormatReal exampleGauge
         \<lparr>writer = \<lparr>Comma = dquote, UseCRLF = False, out = []\<rparr>, streamErr = None\<rparr>
         (Unix 1476144000 0) ''testbox-c3eac9'' 10 ''2006-01-02 03:04:05'' []
       = (None, \<lparr>writer = \<lparr>Comma = dquote, UseCRLF = False, out = []\<rparr>, streamErr = None\<rparr>)
   \<and> EncodeInterMetricCSV (/) FormatReal exampleGauge
         \<lparr>Comma = dquote, UseCRLF = False, out = []\<rparr>
         (Unix 1476144000 0) ''testbox-c3eac9'' 10 ''2006-01-02 03:04:05'' []
       = (None, \<lparr>Comma = dquote, UseCRLF = False, out = []\<rparr>)
   \<and> EncodeInterMetricCSV_io (/) FormatReal exampleGauge
         \<lparr>writer = NewTabWriter, streamErr = Some (StreamError ''disk full'')\<rparr>
         (Unix 1476144000 0) ''testbox-c3eac9'' 10 ''2006-01-02 03:04:05'' []
       = (Some (StreamError ''disk full''),
          \<lparr>writer = NewTabWriter, streamErr = Some (StreamError ''disk full'')\<rparr>)"
  by (simp add: EncodeInterMetricCSV_io_def EncodeInterMetricCSV_def fields_literal
      Write_io_def Error_io_def Write_def Error_def validDelim_def exampleGauge_fields
      NewTabWriter_fields byte_defs)

section \<open>Claims about the samplers, against the model of the specification\<close>



text \<open>
  \<^bold>\<open>C3.\<close> A counter that received samples of values \<open>v\<^sub>i\<close> at rates \<open>r\<^sub>i\<close>
  flushes, over an interval of \<open>interval\<close> seconds, exactly one metric, of type
  \<^verbatim>\<open>rate\<close>, whose interval field is \<open>interval\<close> and whose value is the sum of the
  \<open>v\<^sub>i / r\<^sub>i\<close> divided by \<open>interval\<close>. One sample of 5 at rate 1 over 10 seconds
  gives 0.5, one sample of 5 at rate 0.5 gives 1.
\<close>

theorem C3_counter_flushes_the_rate:
  "Counter_Flush (Counter_Samples (NewCounter name tags) samples) interval now
     = [\<lparr>DD_Name = name,
         DD_Value = (now, (\<Sum>(v, r) \<leftarrow> samples. v / r) / of_int interval),
         DD_Tags = tags, DD_MetricType = ''rate'', DD_Hostname = [], DD_DeviceName = [],
         DD_Interval = interval\<rparr>]
   \<and> snd (DD_Value (hd (Counter_Flush (Counter_Samples (NewCounter name tags) [(5, 1)]) 10 now)))
       = 0.5
   \<and> snd (DD_Value (hd (Counter_Flush (Counter_Samples (NewCounter name tags) [(5, 0.5)]) 10 now)))
       = 1.0"
  by (simp add: Counter_Samples_sum Counter_Flush_def NewCounter_def)

text \<open>
  \<^bold>\<open>C9.\<close> A gauge that received a non-empty sequence of samples flushes exactly one
  metric, of type \<^verbatim>\<open>gauge\<close>, with interval 0 and the value of the last sample.
\<close>

theorem C9_gauge_flushes_the_last_sample:
  assumes "samples \<noteq> []"
  shows "Gauge_Flush (Gauge_Samples (NewGauge name tags) samples) now
     = [\<lparr>DD_Name = name, DD_Value = (now, fst (last samples)), DD_Tags = tags,
         DD_MetricType = ''gauge'', DD_Hostname = [], DD_DeviceName = [], DD_Interval = 0\<rparr>]"
  using assms by (simp add: Gauge_Samples_last Gauge_Flush_def NewGauge_def)

text \<open>Three samples, the last of value 5.\<close>

theorem C9_witness:
  "[(1, 1), (7, 0.5), (5 :: real, 1 :: real)] \<noteq> []
   \<and> Gauge_Flush (Gauge_Samples (NewGauge ''a.b.c'' [''a:b'']) [(1, 1), (7, 0.5), (5, 1)])
        1476119058
     = [\<lparr>DD_Name = ''a.b.c'', DD_Value = (1476119058, 5), DD_Tags = [''a:b''],
         DD_MetricType = ''gauge'', DD_Hostname = [], DD_DeviceName = [], DD_Interval = 0\<rparr>]"
  using C9_gauge_flushes_the_last_sample
    [of "[(1, 1), (7, 0.5), (5, 1)]" "''a.b.c''" "[''a:b'']" 1476119058]
  by simp

end
